theory Spec2Isabelle
  imports Main
begin

section \<open>The durable store\<close>

text \<open>
  The table \<open>jobs\<close> of db.py. One row is a record with the table's nine columns; the
  column \<open>id\<close> is called \<open>job_id\<close> here. The column \<open>state\<close> is TEXT in the schema; the
  program writes and compares only the literals of the type \<open>job_state\<close> (main.py's
  \<open>status\<close> also lists 'failed', which nothing writes). The column \<open>attempts\<close> is
  INTEGER NOT NULL DEFAULT 0 and is only ever written as 0 or as a successor, so it is a
  natural number. The nullable TEXT columns \<open>output_log\<close> and \<open>error_log\<close> are options.

  Time. There is one clock, in UTC; a whole second on it is an integer, the number of
  seconds since 0001-01-01 00:00:00, the first time of Python's datetime. SQLite's
  \<open>CURRENT_TIMESTAMP\<close> is the whole second of the clock, kept as the text
  'YYYY-MM-DD HH:MM:SS'. The columns \<open>created_at\<close> and \<open>updated_at\<close> are written by
  \<open>CURRENT_TIMESTAMP\<close> alone and are whole seconds. The column \<open>run_at\<close> is written by
  \<open>CURRENT_TIMESTAMP\<close> (the default of the INSERT, and \<open>dlq retry\<close>) and by Python
  (\<open>fail_job\<close> passes a datetime with its microseconds, which the sqlite3 module stores
  as the text 'YYYY-MM-DD HH:MM:SS.ffffff+00:00'): a \<open>timestamp\<close> is one or the other.

  The table is the list of its rows in insertion order. A statement that fails inside the
  store (sqlite3.Error: a locked or unreachable database file) is not part of the model:
  every statement below runs to its end.
\<close>

datatype job_state = Pending | Processing | Completed | Failed | Dead

datatype timestamp = Sql_time int | Py_time int nat

text \<open>
  \<open>run_at <= CURRENT_TIMESTAMP\<close> compares the two texts. They agree up to the seconds
  when the whole seconds are equal, and then the text written by Python is the longer one
  and so the greater, whatever its microseconds: a time written by Python is at or before
  \<open>CURRENT_TIMESTAMP\<close> only from the next whole second on.
\<close>

fun le_current_timestamp :: "timestamp \<Rightarrow> int \<Rightarrow> bool" where
  "le_current_timestamp (Sql_time t) now = (t \<le> now)"
| "le_current_timestamp (Py_time t us) now = (t < now)"

record job =
  job_id :: string
  command :: string
  state :: job_state
  attempts :: nat
  created_at :: int
  updated_at :: int
  run_at :: timestamp
  output_log :: "string option"
  error_log :: "string option"

type_synonym store = "job list"

text \<open>\<open>id TEXT PRIMARY KEY\<close>: no two rows share an id.\<close>

definition primary_key :: "store \<Rightarrow> bool" where
  "primary_key s = distinct (map job_id s)"

text \<open>
  \<open>UPDATE jobs SET ... WHERE ...\<close> at time \<open>now\<close>: every row the condition selects gets
  the assignment, and the trigger \<open>update_jobs_updated_at\<close> then stamps its
  \<open>updated_at\<close>. The second component is the cursor's \<open>rowcount\<close>.
\<close>

definition sql_update :: "(job \<Rightarrow> bool) \<Rightarrow> (job \<Rightarrow> job) \<Rightarrow> int \<Rightarrow> store \<Rightarrow> store \<times> nat" where
  "sql_update cond assign now s =
     (map (\<lambda>r. if cond r then (assign r)\<lparr>updated_at := now\<rparr> else r) s,
      length (filter cond s))"

section \<open>worker.py: the claim\<close>

text \<open>
  The three statements of \<open>fetch_and_lock_job\<close>, each one atomic step on the store.
  \<open>find_sql\<close> is \<open>SELECT id FROM jobs WHERE state = 'pending' AND run_at <=
  CURRENT_TIMESTAMP LIMIT 1\<close>; with no ORDER BY the table is scanned in insertion order
  and the first match is taken.
\<close>

definition eligible :: "int \<Rightarrow> job \<Rightarrow> bool" where
  "eligible now r = (state r = Pending \<and> le_current_timestamp (run_at r) now)"

definition find_sql :: "int \<Rightarrow> store \<Rightarrow> string option" where
  "find_sql now s = map_option job_id (find (eligible now) s)"

definition lock_sql :: "int \<Rightarrow> string \<Rightarrow> store \<Rightarrow> store \<times> nat" where
  "lock_sql now jid s =
     sql_update (\<lambda>r. job_id r = jid \<and> state r = Pending) (\<lambda>r. r\<lparr>state := Processing\<rparr>) now s"

definition get_sql :: "string \<Rightarrow> store \<Rightarrow> job option" where
  "get_sql jid s = find (\<lambda>r. job_id r = jid) s"

text \<open>
  Lines 50 to 60 of worker.py: what \<open>fetch_and_lock_job\<close> does once the SELECT has given
  it an id. The store it runs on is the store at that moment, which another worker may
  have changed since the SELECT.
\<close>

definition lock_and_get :: "int \<Rightarrow> string \<Rightarrow> store \<Rightarrow> store \<times> job option" where
  "lock_and_get now jid s =
     (case lock_sql now jid s of
        (s', rowcount) \<Rightarrow> if rowcount = 0 then (s', None) else (s', get_sql jid s'))"

definition fetch_and_lock_job :: "int \<Rightarrow> store \<Rightarrow> store \<times> job option" where
  "fetch_and_lock_job now s =
     (case find_sql now s of
        None \<Rightarrow> (s, None)
      | Some jid \<Rightarrow> lock_and_get now jid s)"

text \<open>
  The same three statements as a machine that runs one statement per step, for the
  workers that run \<open>fetch_and_lock_job\<close> at the same time on one store: \<open>At_find\<close>
  before the SELECT, \<open>At_lock\<close> before the UPDATE, \<open>At_get\<close> before the second
  SELECT, \<open>Returned\<close> with the value the function returns.
\<close>

datatype claim_pc = At_find | At_lock string | At_get string | Returned "job option"

definition claim_step :: "int \<Rightarrow> store \<Rightarrow> claim_pc \<Rightarrow> store \<times> claim_pc" where
  "claim_step now s pc =
     (case pc of
        At_find \<Rightarrow>
          (case find_sql now s of
             None \<Rightarrow> (s, Returned None)
           | Some jid \<Rightarrow> (s, At_lock jid))
      | At_lock jid \<Rightarrow>
          (case lock_sql now jid s of
             (s', rowcount) \<Rightarrow> if rowcount = 0 then (s', Returned None) else (s', At_get jid))
      | At_get jid \<Rightarrow> (s, Returned (get_sql jid s))
      | Returned r \<Rightarrow> (s, Returned r))"

text \<open>
  Two workers on one store. A schedule says, statement by statement, which worker runs
  next (\<open>True\<close> the first, \<open>False\<close> the second) and the time on the store's clock.
\<close>

fun race :: "(bool \<times> int) list \<Rightarrow> store \<times> claim_pc \<times> claim_pc \<Rightarrow> store \<times> claim_pc \<times> claim_pc" where
  "race [] c = c"
| "race ((w, now) # sch) (s, pa, pb) =
     (if w then (case claim_step now s pa of (s', pa') \<Rightarrow> race sch (s', pa', pb))
      else (case claim_step now s pb of (s', pb') \<Rightarrow> race sch (s', pa, pb')))"

definition steps_of :: "bool \<Rightarrow> (bool \<times> int) list \<Rightarrow> nat" where
  "steps_of w sch = length (filter (\<lambda>e. fst e = w) sch)"

section \<open>worker.py: execution\<close>

text \<open>
  \<open>subprocess.run(command, shell=True, capture_output=True, text=True, check=False)\<close>
  either returns a CompletedProcess or raises; the exception is kept as its text. The
  executor is outside the program, so it is a parameter.
\<close>

record completed_process =
  returncode :: int
  stdout :: string
  stderr :: string

datatype run_outcome = Process_ended completed_process | Raised string

type_synonym executor = "string \<Rightarrow> run_outcome"

definition run_job :: "executor \<Rightarrow> job \<Rightarrow> completed_process" where
  "run_job ex job =
     (case ex (command job) of
        Process_ended result \<Rightarrow> result
      | Raised e \<Rightarrow> \<lparr>returncode = 1, stdout = [], stderr = e\<rparr>)"

section \<open>config.py\<close>

text \<open>
  The configuration is the dictionary read from config.json. Its values are the ones
  \<open>config set\<close> of main.py writes: an integer when the text given parses as one, the text
  itself otherwise. Other JSON values (floats, null, lists, a file that is not an object)
  are not part of the model.
\<close>

datatype cval = CInt int | CStr string

type_synonym config = "string \<rightharpoonup> cval"

definition DEFAULT_CONFIG :: config where
  "DEFAULT_CONFIG = [''max_retries'' \<mapsto> CInt 3, ''backoff_base'' \<mapsto> CInt 2]"

text \<open>The file config.json: absent, not valid JSON, or a JSON object.\<close>

datatype config_file = No_file | Invalid_json | Json_object config

text \<open>\<open>get_config\<close> returns the configuration and leaves the file (written when absent).\<close>

definition get_config :: "config_file \<Rightarrow> config \<times> config_file" where
  "get_config f =
     (case f of
        No_file \<Rightarrow> (DEFAULT_CONFIG, Json_object DEFAULT_CONFIG)
      | Invalid_json \<Rightarrow> (DEFAULT_CONFIG, Invalid_json)
      | Json_object c \<Rightarrow> (c, Json_object c))"

text \<open>\<open>config.get(key, default)\<close>.\<close>

definition dict_get :: "config \<Rightarrow> string \<Rightarrow> cval \<Rightarrow> cval" where
  "dict_get config key dflt = (case config key of None \<Rightarrow> dflt | Some v \<Rightarrow> v)"

section \<open>worker.py: resolution\<close>

text \<open>
  Python raises TypeError when an integer is compared with a string by \<open>>=\<close> and when a
  string is raised to a power, and OverflowError when a timedelta or a datetime leaves its
  range; the message is Python's, without its quotation marks.
\<close>

datatype py_error = TypeError string | OverflowError string

definition str_of_error :: "py_error \<Rightarrow> string" where
  "str_of_error e = (case e of TypeError msg \<Rightarrow> msg | OverflowError msg \<Rightarrow> msg)"

definition py_ge :: "int \<Rightarrow> cval \<Rightarrow> py_error + bool" where
  "py_ge a v =
     (case v of
        CInt m \<Rightarrow> Inr (a \<ge> m)
      | CStr _ \<Rightarrow> Inl (TypeError ''>= not supported between instances of int and str''))"

definition py_pow :: "cval \<Rightarrow> nat \<Rightarrow> py_error + int" where
  "py_pow v k =
     (case v of
        CInt b \<Rightarrow> Inr (b ^ k)
      | CStr _ \<Rightarrow> Inl (TypeError ''unsupported operand type(s) for ** or pow(): str and int''))"

text \<open>
  What \<open>datetime.now(timezone.utc)\<close> returns: the whole second of the clock and the
  microseconds.
\<close>

record py_datetime =
  whole_seconds :: int
  microsecond :: nat

text \<open>
  \<open>timedelta(seconds=n)\<close> for an integer \<open>n\<close>: the days are \<open>n div 86400\<close> and must
  have magnitude at most 999999999. The result is kept as its seconds.
\<close>

definition timedelta :: "int \<Rightarrow> py_error + int" where
  "timedelta n =
     (if \<bar>n div 86400\<bar> > 999999999
      then Inl (OverflowError ''days must have magnitude <= 999999999'')
      else Inr n)"

text \<open>
  The last whole second of datetime, 9999-12-31 23:59:59: day 3652059 is the last day,
  counted from 0001-01-01 as day 1.
\<close>

definition DATETIME_MAX :: int where
  "DATETIME_MAX = 3652059 * 86400 - 1"

text \<open>\<open>datetime + timedelta\<close>: the sum must be a datetime, of the years 1 to 9999.\<close>

definition datetime_add :: "py_datetime \<Rightarrow> int \<Rightarrow> py_error + py_datetime" where
  "datetime_add d delta =
     (if whole_seconds d + delta < 0 \<or> DATETIME_MAX < whole_seconds d + delta
      then Inl (OverflowError ''date value out of range'')
      else Inr (d\<lparr>whole_seconds := whole_seconds d + delta\<rparr>))"

text \<open>The value the sqlite3 module binds for a datetime.\<close>

definition adapt_datetime :: "py_datetime \<Rightarrow> timestamp" where
  "adapt_datetime d = Py_time (whole_seconds d) (microsecond d)"

text \<open>
  \<open>fail_job\<close> when \<open>datetime.now\<close> returns \<open>now\<close>; the UPDATE runs in the same second. The
  job is the record the worker got from the claim, not the row of the store. An exception
  leaves before any statement is executed.
\<close>

definition fail_job :: "py_datetime \<Rightarrow> store \<Rightarrow> job \<Rightarrow> completed_process \<Rightarrow> config \<Rightarrow> py_error + store" where
  "fail_job now s job result config =
     (let jid = job_id job;
          max_retries = dict_get config ''max_retries'' (CInt 3);
          backoff_base = dict_get config ''backoff_base'' (CInt 2);
          current_attempts = attempts job + 1
      in case py_ge (int current_attempts) max_retries of
           Inl e \<Rightarrow> Inl e
         | Inr True \<Rightarrow>
             Inr (fst (sql_update (\<lambda>r. job_id r = jid)
               (\<lambda>r. r\<lparr>state := Dead, attempts := current_attempts,
                      output_log := Some (stdout result), error_log := Some (stderr result)\<rparr>)
               (whole_seconds now) s))
         | Inr False \<Rightarrow>
             (case py_pow backoff_base current_attempts of
                Inl e \<Rightarrow> Inl e
              | Inr delay_seconds \<Rightarrow>
                  (case timedelta delay_seconds of
                     Inl e \<Rightarrow> Inl e
                   | Inr delta \<Rightarrow>
                       (case datetime_add now delta of
                          Inl e \<Rightarrow> Inl e
                        | Inr next_run_time \<Rightarrow>
                            Inr (fst (sql_update (\<lambda>r. job_id r = jid)
                              (\<lambda>r. r\<lparr>state := Pending, attempts := current_attempts,
                                     run_at := adapt_datetime next_run_time,
                                     output_log := Some (stdout result),
                                     error_log := Some (stderr result)\<rparr>)
                              (whole_seconds now) s))))))"

definition handle_job_result :: "py_datetime \<Rightarrow> store \<Rightarrow> job \<Rightarrow> completed_process \<Rightarrow> config \<Rightarrow> py_error + store" where
  "handle_job_result now s job result config =
     (if returncode result = 0
      then Inr (fst (sql_update (\<lambda>r. job_id r = job_id job)
             (\<lambda>r. r\<lparr>state := Completed,
                    output_log := Some (stdout result), error_log := Some (stderr result)\<rparr>)
             (whole_seconds now) s))
      else fail_job now s job result config)"

section \<open>worker.py: the loop\<close>

text \<open>
  \<open>signal_handler\<close> on the flag SHUTDOWN_REQUESTED: the first signal sets it, a signal
  that finds it set calls \<open>sys.exit(1)\<close>.
\<close>

datatype sys_exit = SystemExit int

definition signal_handler :: "bool \<Rightarrow> sys_exit + bool" where
  "signal_handler shutdown_requested =
     (if \<not> shutdown_requested then Inr True else Inl (SystemExit 1))"

fun deliver :: "nat \<Rightarrow> bool \<Rightarrow> sys_exit + bool" where
  "deliver 0 flag = Inr flag"
| "deliver (Suc n) flag =
     (case signal_handler flag of Inl x \<Rightarrow> Inl x | Inr flag' \<Rightarrow> deliver n flag')"

text \<open>
  What the world gives one pass of the loop: the second of the claim, the reading of the
  clock when the command has ended, the executor, and the number of termination signals
  that arrive while the pass waits (for the command, or in its idle sleep).
\<close>

record tick =
  t_claim :: int
  t_resolve :: py_datetime
  exec :: executor
  signals :: nat

datatype pass_end = Next_pass bool | Exits sys_exit | Propagates py_error

text \<open>
  The body of the \<open>while\<close> loop, entered with the flag unset. A SystemExit raised by the
  handler is no \<open>Exception\<close>: neither \<open>run_job\<close> nor the loop catches it. An exception
  out of \<open>handle_job_result\<close> reaches \<open>except Exception\<close>, which calls
  \<open>handle_job_result\<close> again with a result made of the error text; an exception out of
  that call leaves the loop.
\<close>

definition worker_pass :: "config \<Rightarrow> tick \<Rightarrow> store \<Rightarrow> store \<times> pass_end" where
  "worker_pass config t s =
     (case fetch_and_lock_job (t_claim t) s of
        (s1, None) \<Rightarrow>
          (case deliver (signals t) False of
             Inl x \<Rightarrow> (s1, Exits x)
           | Inr flag \<Rightarrow> (s1, Next_pass flag))
      | (s1, Some job) \<Rightarrow>
          (case deliver (signals t) False of
             Inl x \<Rightarrow> (s1, Exits x)
           | Inr flag \<Rightarrow>
               (case handle_job_result (t_resolve t) s1 job (run_job (exec t) job) config of
                  Inr s2 \<Rightarrow> (s2, Next_pass flag)
                | Inl e \<Rightarrow>
                    (case handle_job_result (t_resolve t) s1 job
                            \<lparr>returncode = 1, stdout = [], stderr = str_of_error e\<rparr> config of
                       Inr s3 \<Rightarrow> (s3, Next_pass flag)
                     | Inl e' \<Rightarrow> (s1, Propagates e')))))"

text \<open>
  The loop over the passes the world allows. \<open>Stopped\<close> is the end after "Worker shutting
  down gracefully"; \<open>Still_running\<close> says that the loop has not ended when the list has.
\<close>

datatype loop_end = Stopped store | Forced_exit store | Uncaught py_error store | Still_running store

fun loop :: "config \<Rightarrow> tick list \<Rightarrow> bool \<Rightarrow> store \<Rightarrow> loop_end" where
  "loop config ticks True s = Stopped s"
| "loop config [] False s = Still_running s"
| "loop config (t # ts) False s =
     (case worker_pass config t s of
        (s', Next_pass flag) \<Rightarrow> loop config ts flag s'
      | (s', Exits x) \<Rightarrow> Forced_exit s'
      | (s', Propagates e) \<Rightarrow> Uncaught e s')"

definition worker_loop :: "config_file \<Rightarrow> tick list \<Rightarrow> store \<Rightarrow> loop_end" where
  "worker_loop f ticks s = loop (fst (get_config f)) ticks False s"

section \<open>main.py\<close>

text \<open>
  A command of the CLI ends with a message, with an error message and
  \<open>typer.Exit(code=1)\<close>, or with an error message alone.
\<close>

datatype cli_error = Missing_id_or_command | Already_exists string | Not_in_dlq string

datatype report = Success | Error_exit cli_error | Error_echo cli_error

text \<open>
  \<open>enqueue\<close> after \<open>json.loads\<close>: the two arguments are \<open>job_data.get('id')\<close> and
  \<open>job_data.get('command')\<close>. The INSERT gives the other columns their defaults.
\<close>

definition enqueue :: "int \<Rightarrow> store \<Rightarrow> string option \<Rightarrow> string option \<Rightarrow> store \<times> report" where
  "enqueue now s id_value command_value =
     (case (id_value, command_value) of
        (Some jid, Some cmd) \<Rightarrow>
          if jid = [] \<or> cmd = [] then (s, Error_exit Missing_id_or_command)
          else if jid \<in> set (map job_id s) then (s, Error_exit (Already_exists jid))
          else (s @ [\<lparr>job_id = jid, command = cmd, state = Pending, attempts = 0,
                       created_at = now, updated_at = now, run_at = Sql_time now,
                       output_log = None, error_log = None\<rparr>], Success)
      | _ \<Rightarrow> (s, Error_exit Missing_id_or_command))"

text \<open>\<open>dlq retry\<close>: the UPDATE is committed only when it changed a row.\<close>

definition dlq_retry :: "int \<Rightarrow> store \<Rightarrow> string \<Rightarrow> store \<times> report" where
  "dlq_retry now s jid =
     (case sql_update (\<lambda>r. job_id r = jid \<and> state r = Dead)
             (\<lambda>r. r\<lparr>state := Pending, attempts := 0, run_at := Sql_time now\<rparr>) now s of
        (s', rowcount) \<Rightarrow>
          if rowcount = 0 then (s, Error_echo (Not_in_dlq jid)) else (s', Success))"

section \<open>The engine as a transition system\<close>

text \<open>
  The store together with the records the workers hold between claim and resolution.
  A claim is \<open>lock_and_get\<close> at any id: the SELECT before it only chooses the id and
  may have run on an earlier store. A worker whose resolution raises keeps its record and
  makes no further step.
\<close>

inductive reachable :: "config \<Rightarrow> store \<times> job list \<Rightarrow> bool" for config :: config where
  start: "reachable config ([], [])"
| enqueued: "reachable config (s, held) \<Longrightarrow> enqueue now s i c = (s', rep)
     \<Longrightarrow> reachable config (s', held)"
| claimed: "reachable config (s, held) \<Longrightarrow> lock_and_get now jid s = (s', Some j)
     \<Longrightarrow> reachable config (s', j # held)"
| resolved: "reachable config (s, held) \<Longrightarrow> j \<in> set held
     \<Longrightarrow> handle_job_result now s j result config = Inr s'
     \<Longrightarrow> reachable config (s', removeAll j held)"
| retried: "reachable config (s, held) \<Longrightarrow> dlq_retry now s jid = (s', rep)
     \<Longrightarrow> reachable config (s', held)"

text \<open>
  What holds of every reachable state under \<open>max_retries = m\<close>: ids are distinct, in the
  store and among the held records; a dead row has exactly \<open>m\<close> attempts and every other
  row fewer; and the row of a held record is in state processing with the attempts the
  record has.
\<close>

definition row_bound :: "int \<Rightarrow> job \<Rightarrow> bool" where
  "row_bound m r = (if state r = Dead then int (attempts r) = m else int (attempts r) < m)"

definition held_row :: "store \<Rightarrow> job \<Rightarrow> bool" where
  "held_row s j = (\<exists>r\<in>set s. job_id r = job_id j \<and> state r = Processing \<and> attempts r = attempts j)"

definition engine_inv :: "int \<Rightarrow> store \<times> job list \<Rightarrow> bool" where
  "engine_inv m c =
     (case c of (s, held) \<Rightarrow>
        primary_key s \<and> distinct (map job_id held) \<and>
        (\<forall>r\<in>set s. row_bound m r) \<and> (\<forall>j\<in>set held. held_row s j))"

text \<open>No row of the store is in state processing.\<close>

definition no_processing :: "store \<Rightarrow> bool" where
  "no_processing s = (\<forall>r\<in>set s. state r \<noteq> Processing)"

section \<open>Concrete inputs\<close>

text \<open>A freshly enqueued job, used where a statement is run on a concrete store.\<close>

definition job_a :: job where
  "job_a = \<lparr>job_id = ''a'', command = ''exit 1'', state = Pending, attempts = 0,
            created_at = 1, updated_at = 1, run_at = Sql_time 1, output_log = None, error_log = None\<rparr>"

text \<open>
  The same job as a worker holds it after a claim at time 5, two results, and the reading
  of the clock a quarter of a second after a whole second.
\<close>

definition quarter_past :: "int \<Rightarrow> py_datetime" where
  "quarter_past t = \<lparr>whole_seconds = t, microsecond = 250000\<rparr>"

definition job_a_claimed :: job where
  "job_a_claimed = job_a\<lparr>state := Processing, updated_at := 5\<rparr>"

definition exit_1 :: completed_process where
  "exit_1 = \<lparr>returncode = 1, stdout = ''out'', stderr = ''err''\<rparr>"

definition exit_0 :: completed_process where
  "exit_0 = \<lparr>returncode = 0, stdout = ''out'', stderr = ''err''\<rparr>"

text \<open>The job after one failed attempt under the default policy, and as a dead job.\<close>

definition job_a_failed :: job where
  "job_a_failed = job_a_claimed\<lparr>state := Pending, attempts := 1, run_at := Py_time 12 250000,
     output_log := Some ''out'', error_log := Some ''err'', updated_at := 10\<rparr>"

definition job_dead :: job where
  "job_dead = job_a\<lparr>state := Dead, attempts := 3, run_at := Py_time 9 250000, updated_at := 11,
     output_log := Some [], error_log := Some ''err''\<rparr>"

text \<open>A schedule in which the second worker runs its UPDATE first.\<close>

definition schedule_4 :: "(bool \<times> int) list" where
  "schedule_4 = [(False, 6), (True, 6), (True, 7), (False, 8)]"

text \<open>A policy of one attempt, and the job dead under it.\<close>

definition config_1 :: config where
  "config_1 = [''max_retries'' \<mapsto> CInt 1]"

definition job_a_dead :: job where
  "job_a_dead = job_a_claimed\<lparr>state := Dead, attempts := 1,
     output_log := Some ''out'', error_log := Some ''err'', updated_at := 10\<rparr>"

text \<open>
  The configuration after \<open>config set max_retries three\<close>, and one pass of the loop in
  which the command ends with exit status 1 and no signal arrives.
\<close>

definition config_three :: config where
  "config_three = [''max_retries'' \<mapsto> CStr ''three'', ''backoff_base'' \<mapsto> CInt 2]"

definition tick_1 :: tick where
  "tick_1 = \<lparr>t_claim = 5, t_resolve = quarter_past 6, exec = (\<lambda>c. Process_ended exit_1), signals = 0\<rparr>"

text \<open>
  A backoff base of \<open>10 ^ 12\<close> seconds, as \<open>config set backoff_base 1000000000000\<close>
  writes it, and a reading of the clock in the year 2026 (2026-11-04 00:00:00.25; the day
  is day 739924 counted from 0001-01-01 as day 1).
\<close>

definition config_big :: config where
  "config_big = [''backoff_base'' \<mapsto> CInt 1000000000000]"

definition in_2026 :: py_datetime where
  "in_2026 = \<lparr>whole_seconds = 63929347200, microsecond = 250000\<rparr>"

text \<open>One pass of the loop in that year, with a command that ends with exit status 1.\<close>

definition tick_2026 :: tick where
  "tick_2026 = \<lparr>t_claim = 63929347200, t_resolve = in_2026,
     exec = (\<lambda>c. Process_ended exit_1), signals = 0\<rparr>"

section \<open>Facts about the store\<close>

lemma pk_unique:
  "primary_key s \<Longrightarrow> r \<in> set s \<Longrightarrow> x \<in> set s \<Longrightarrow> job_id x = job_id r \<Longrightarrow> x = r"
  unfolding primary_key_def by (auto simp: distinct_map dest: inj_onD)

lemma sql_update_ids:
  "(\<And>r. job_id (assign r) = job_id r) \<Longrightarrow> map job_id (fst (sql_update cond assign now s)) = map job_id s"
  by (induction s) (simp_all add: sql_update_def)

lemma sql_update_none:
  "\<forall>r\<in>set s. \<not> cond r \<Longrightarrow> sql_update cond assign now s = (s, 0)"
  by (induction s) (simp_all add: sql_update_def)

lemma sql_update_rowcount:
  "(snd (sql_update cond assign now s) = 0) = (\<forall>r\<in>set s. \<not> cond r)"
  by (simp add: sql_update_def filter_empty_conv)

lemma find_Some_member:
  "find P s = Some r \<Longrightarrow> r \<in> set s \<and> P r"
  by (induction s) (auto split: if_splits)

lemma get_sql_member:
  "primary_key s \<Longrightarrow> r \<in> set s \<Longrightarrow> get_sql (job_id r) s = Some r"
proof -
  assume pk: "primary_key s" and r: "r \<in> set s"
  then obtain x where x: "find (\<lambda>x. job_id x = job_id r) s = Some x"
    by (cases "find (\<lambda>x. job_id x = job_id r) s") (auto simp: find_None_iff)
  then have "x \<in> set s \<and> job_id x = job_id r" by (rule find_Some_member)
  with pk r have "x = r" by (auto dest: pk_unique)
  with x show ?thesis by (simp add: get_sql_def)
qed

lemma sql_update_one:
  assumes "primary_key s" "r \<in> set s"
  shows "fst (sql_update (\<lambda>x. job_id x = job_id r \<and> P x) assign now s) =
     (if P r then map (\<lambda>x. if x = r then (assign r)\<lparr>updated_at := now\<rparr> else x) s else s)"
proof -
  have "\<And>x. x \<in> set s \<Longrightarrow> (job_id x = job_id r \<and> P x) = (x = r \<and> P r)"
    using assms by (auto dest: pk_unique)
  then have "map (\<lambda>x. if job_id x = job_id r \<and> P x then (assign x)\<lparr>updated_at := now\<rparr> else x) s
      = map (\<lambda>x. if x = r \<and> P r then (assign r)\<lparr>updated_at := now\<rparr> else x) s"
    by (intro map_cong) auto
  then show ?thesis by (auto simp: sql_update_def intro: map_idI)
qed


lemma lock_and_get_pending:
  assumes "primary_key s" "r \<in> set s" "state r = Pending"
  shows "lock_and_get now (job_id r) s =
     (map (\<lambda>x. if x = r then r\<lparr>state := Processing, updated_at := now\<rparr> else x) s,
      Some (r\<lparr>state := Processing, updated_at := now\<rparr>))"
proof -
  let ?r' = "r\<lparr>state := Processing, updated_at := now\<rparr>"
  let ?s' = "map (\<lambda>x. if x = r then ?r' else x) s"
  have st: "fst (lock_sql now (job_id r) s) = ?s'"
    using sql_update_one [OF assms(1,2), of "\<lambda>x. state x = Pending"] assms(3)
    by (simp add: lock_sql_def)
  have rc: "snd (lock_sql now (job_id r) s) \<noteq> 0"
    using assms(2,3) by (auto simp: lock_sql_def sql_update_rowcount)
  have "map job_id ?s' = map job_id s" by (induction s) auto
  with assms(1) have pk': "primary_key ?s'" by (simp only: primary_key_def)
  have "?r' \<in> set ?s'" using assms(2) by (auto simp: image_iff)
  with pk' have "get_sql (job_id ?r') ?s' = Some ?r'" by (rule get_sql_member)
  then have "get_sql (job_id r) ?s' = Some ?r'" by simp
  with st rc show ?thesis
    by (cases "lock_sql now (job_id r) s") (simp add: lock_and_get_def)
qed

lemma lock_and_get_lost:
  assumes "\<forall>r\<in>set s. job_id r = jid \<longrightarrow> state r \<noteq> Pending"
  shows "lock_and_get now jid s = (s, None)"
proof -
  have "sql_update (\<lambda>r. job_id r = jid \<and> state r = Pending) (\<lambda>r. r\<lparr>state := Processing\<rparr>) now s = (s, 0)"
    using assms by (intro sql_update_none) auto
  then show ?thesis by (simp add: lock_and_get_def lock_sql_def)
qed

lemma sql_update_id:
  assumes "primary_key s" "r \<in> set s"
  shows "fst (sql_update (\<lambda>x. job_id x = job_id r) assign now s) =
     map (\<lambda>x. if x = r then (assign r)\<lparr>updated_at := now\<rparr> else x) s"
proof -
  have "\<And>x. x \<in> set s \<Longrightarrow> (job_id x = job_id r) = (x = r)"
    using assms by (auto dest: pk_unique)
  then have "map (\<lambda>x. if job_id x = job_id r then (assign x)\<lparr>updated_at := now\<rparr> else x) s
      = map (\<lambda>x. if x = r then (assign r)\<lparr>updated_at := now\<rparr> else x) s"
    by (intro map_cong) auto
  then show ?thesis by (simp add: sql_update_def)
qed

lemma fetch_and_lock_job_Some:
  assumes "primary_key s" "fetch_and_lock_job now s = (s', Some j)"
  shows "\<exists>r\<in>set s. eligible now r \<and> j = r\<lparr>state := Processing, updated_at := now\<rparr> \<and>
           s' = map (\<lambda>x. if x = r then j else x) s"
proof -
  from assms(2) obtain r where f: "find (eligible now) s = Some r"
    by (cases "find (eligible now) s") (auto simp: fetch_and_lock_job_def find_sql_def)
  then have r: "r \<in> set s" "eligible now r" by (auto dest: find_Some_member)
  then have "state r = Pending" by (simp add: eligible_def)
  with assms(1) r(1) have "lock_and_get now (job_id r) s =
     (map (\<lambda>x. if x = r then r\<lparr>state := Processing, updated_at := now\<rparr> else x) s,
      Some (r\<lparr>state := Processing, updated_at := now\<rparr>))"
    by (rule lock_and_get_pending)
  with f assms(2) have "j = r\<lparr>state := Processing, updated_at := now\<rparr>"
    "s' = map (\<lambda>x. if x = r then r\<lparr>state := Processing, updated_at := now\<rparr> else x) s"
    by (simp_all add: fetch_and_lock_job_def find_sql_def)
  with r show ?thesis by blast
qed

lemma primary_key_replace:
  "primary_key s \<Longrightarrow> job_id r' = job_id r \<Longrightarrow> primary_key (map (\<lambda>x. if x = r then r' else x) s)"
proof -
  assume a: "primary_key s" "job_id r' = job_id r"
  then have "map job_id (map (\<lambda>x. if x = r then r' else x) s) = map job_id s"
    by (induction s) auto
  with a(1) show ?thesis by (simp only: primary_key_def)
qed

lemma handle_job_result_success:
  assumes "primary_key s" and "r \<in> set s" and "job_id r = job_id j" and "returncode result = 0"
  shows "handle_job_result now s j result config =
      Inr (map (\<lambda>x. if x = r
                 then r\<lparr>state := Completed, output_log := Some (stdout result),
                        error_log := Some (stderr result), updated_at := whole_seconds now\<rparr>
                 else x) s)"
  using sql_update_id [OF assms(1,2)] assms(3,4) by (simp add: handle_job_result_def)

lemma enqueue_Success:
  assumes "enqueue now s (Some jid) (Some cmd) = (s', Success)"
  shows "s' = s @ [\<lparr>job_id = jid, command = cmd, state = Pending, attempts = 0,
                       created_at = now, updated_at = now, run_at = Sql_time now,
                       output_log = None, error_log = None\<rparr>] \<and> jid \<notin> set (map job_id s)"
  using assms by (auto simp: enqueue_def split: if_splits)

lemma lock_sql_pending:
  assumes "primary_key s" "r \<in> set s" "state r = Pending"
  shows "fst (lock_sql now (job_id r) s) =
           map (\<lambda>x. if x = r then r\<lparr>state := Processing, updated_at := now\<rparr> else x) s"
    and "snd (lock_sql now (job_id r) s) \<noteq> 0"
proof -
  show "fst (lock_sql now (job_id r) s) =
           map (\<lambda>x. if x = r then r\<lparr>state := Processing, updated_at := now\<rparr> else x) s"
    using sql_update_one [OF assms(1,2), of "\<lambda>x. state x = Pending"] assms(3)
    by (simp add: lock_sql_def)
  show "snd (lock_sql now (job_id r) s) \<noteq> 0"
    using assms(2,3) by (auto simp: lock_sql_def sql_update_rowcount)
qed

lemma locked_store:
  assumes "primary_key s" "r \<in> set s"
    and r': "r' = r\<lparr>state := Processing, updated_at := t\<rparr>"
    and s': "s' = map (\<lambda>x. if x = r then r' else x) s"
  shows "lock_sql t2 (job_id r) s' = (s', 0)" and "get_sql (job_id r) s' = Some r'"
proof -
  have pk': "primary_key s'" unfolding s' using assms(1)
    by (intro primary_key_replace) (simp_all add: r')
  have in': "r' \<in> set s'" using assms(2) by (auto simp: s' image_iff)
  have "\<forall>x\<in>set s'. \<not> (job_id x = job_id r \<and> state x = Pending)"
  proof
    fix x assume "x \<in> set s'"
    then have "x = r' \<or> (x \<in> set s \<and> x \<noteq> r)" by (auto simp: s' split: if_splits)
    then show "\<not> (job_id x = job_id r \<and> state x = Pending)"
      using assms(1,2) by (auto simp: r' dest: pk_unique)
  qed
  then show "lock_sql t2 (job_id r) s' = (s', 0)"
    unfolding lock_sql_def by (rule sql_update_none)
  from pk' in' have "get_sql (job_id r') s' = Some r'" by (rule get_sql_member)
  then show "get_sql (job_id r) s' = Some r'" by (simp add: r')
qed

section \<open>The claim, by one worker\<close>

text \<open>
  C2. On a store with distinct ids, at every time: the id the SELECT of
  \<open>fetch_and_lock_job\<close> returns is the id of a row with state pending and
  \<open>run_at <= CURRENT_TIMESTAMP\<close> (an eligible row); when the store has such a row, \<open>fetch_and_lock_job\<close> sets the state of
  one such row to processing and returns that whole row as it then is in the store; when
  the store has none, it returns no job and the store is as before. After the SELECT, the
  guarded UPDATE on a row that is still pending returns that row, set to processing, and
  on an id whose row is no longer pending it returns no job and leaves the store as it
  was. No case of the function raises: its result is a store and an optional job.
\<close>

theorem fetch_and_lock_job_contract:
  assumes "primary_key s"
  shows "(\<forall>jid. find_sql now s = Some jid \<longrightarrow> (\<exists>r\<in>set s. job_id r = jid \<and> eligible now r))
    \<and> ((\<exists>r\<in>set s. eligible now r) \<longrightarrow>
         (\<exists>r\<in>set s. eligible now r \<and>
            fetch_and_lock_job now s =
              (map (\<lambda>x. if x = r then r\<lparr>state := Processing, updated_at := now\<rparr> else x) s,
               Some (r\<lparr>state := Processing, updated_at := now\<rparr>))))
    \<and> ((\<forall>r\<in>set s. \<not> eligible now r) \<longrightarrow> fetch_and_lock_job now s = (s, None))
    \<and> (\<forall>r\<in>set s. state r = Pending \<longrightarrow>
          lock_and_get now (job_id r) s =
            (map (\<lambda>x. if x = r then r\<lparr>state := Processing, updated_at := now\<rparr> else x) s,
             Some (r\<lparr>state := Processing, updated_at := now\<rparr>)))
    \<and> (\<forall>jid. (\<forall>r\<in>set s. job_id r = jid \<longrightarrow> state r \<noteq> Pending) \<longrightarrow>
          lock_and_get now jid s = (s, None))"
proof (intro conjI allI impI ballI)
  fix jid assume "find_sql now s = Some jid"
  then obtain r where "find (eligible now) s = Some r" "job_id r = jid"
    by (auto simp: find_sql_def)
  then show "\<exists>r\<in>set s. job_id r = jid \<and> eligible now r"
    by (auto dest: find_Some_member)
next
  assume "\<exists>r\<in>set s. eligible now r"
  then obtain r where f: "find (eligible now) s = Some r"
    by (cases "find (eligible now) s") (auto simp: find_None_iff)
  then have r: "r \<in> set s" "eligible now r" by (auto dest: find_Some_member)
  then have "state r = Pending" by (simp add: eligible_def)
  with assms r(1) have "lock_and_get now (job_id r) s =
     (map (\<lambda>x. if x = r then r\<lparr>state := Processing, updated_at := now\<rparr> else x) s,
      Some (r\<lparr>state := Processing, updated_at := now\<rparr>))"
    by (rule lock_and_get_pending)
  with f have "fetch_and_lock_job now s =
     (map (\<lambda>x. if x = r then r\<lparr>state := Processing, updated_at := now\<rparr> else x) s,
      Some (r\<lparr>state := Processing, updated_at := now\<rparr>))"
    by (simp add: fetch_and_lock_job_def find_sql_def)
  with r show "\<exists>r\<in>set s. eligible now r \<and> fetch_and_lock_job now s =
     (map (\<lambda>x. if x = r then r\<lparr>state := Processing, updated_at := now\<rparr> else x) s,
      Some (r\<lparr>state := Processing, updated_at := now\<rparr>))"
    by blast
next
  assume "\<forall>r\<in>set s. \<not> eligible now r"
  then have "find (eligible now) s = None" by (simp add: find_None_iff)
  then show "fetch_and_lock_job now s = (s, None)"
    by (simp add: fetch_and_lock_job_def find_sql_def)
next
  fix r assume "r \<in> set s" "state r = Pending"
  with assms show "lock_and_get now (job_id r) s =
     (map (\<lambda>x. if x = r then r\<lparr>state := Processing, updated_at := now\<rparr> else x) s,
      Some (r\<lparr>state := Processing, updated_at := now\<rparr>))"
    by (rule lock_and_get_pending)
next
  fix jid assume "\<forall>r\<in>set s. job_id r = jid \<longrightarrow> state r \<noteq> Pending"
  then show "lock_and_get now jid s = (s, None)" by (rule lock_and_get_lost)
qed

theorem fetch_and_lock_job_contract_witness:
  "primary_key [job_a] \<and>
   fetch_and_lock_job 5 [job_a] =
     ([job_a\<lparr>state := Processing, updated_at := 5\<rparr>], Some (job_a\<lparr>state := Processing, updated_at := 5\<rparr>)) \<and>
   fetch_and_lock_job 0 [job_a] = ([job_a], None) \<and>
   lock_and_get 5 ''a'' [job_a\<lparr>state := Processing\<rparr>] = ([job_a\<lparr>state := Processing\<rparr>], None)"
proof -
  have pk: "primary_key [job_a]" by (simp add: primary_key_def)
  have pk': "primary_key [job_a\<lparr>state := Processing\<rparr>]" by (simp add: primary_key_def)
  show ?thesis
    using pk fetch_and_lock_job_contract [OF pk, of 5] fetch_and_lock_job_contract [OF pk, of 0]
      fetch_and_lock_job_contract [OF pk', of 5]
    by (simp add: eligible_def job_a_def)
qed

section \<open>The claim, by two workers at once\<close>

text \<open>
  The step machine run by one worker alone is \<open>fetch_and_lock_job\<close>.
\<close>

lemma claim_steps_are_fetch_and_lock_job:
  "race [(True, now), (True, now), (True, now)] (s, At_find, pb) =
     (fst (fetch_and_lock_job now s), Returned (snd (fetch_and_lock_job now s)), pb)"
proof (cases "find_sql now s")
  case None
  then show ?thesis by (simp add: claim_step_def fetch_and_lock_job_def)
next
  case (Some jid)
  obtain s' n where l: "lock_sql now jid s = (s', n)" by (cases "lock_sql now jid s")
  show ?thesis
  proof (cases "n = 0")
    case True
    with Some l show ?thesis
      by (simp add: claim_step_def fetch_and_lock_job_def lock_and_get_def)
  next
    case False
    with Some l show ?thesis
      by (simp add: claim_step_def fetch_and_lock_job_def lock_and_get_def)
  qed
qed

text \<open>
  Once one worker's UPDATE has set the row to processing, whatever the order of the
  remaining statements: that worker's SELECT returns the row, and the other worker's
  UPDATE changes nothing and it returns no job.
\<close>

lemma race_after_lock_first:
  assumes "\<And>t. lock_sql t jid s' = (s', 0)" and "get_sql jid s' = Some r'"
  shows "pa = At_get jid \<or> pa = Returned (Some r') \<Longrightarrow>
     pb = At_lock jid \<or> pb = Returned None \<Longrightarrow>
     (pa = At_get jid \<longrightarrow> 1 \<le> steps_of True sch) \<Longrightarrow>
     (pb = At_lock jid \<longrightarrow> 1 \<le> steps_of False sch) \<Longrightarrow>
     race sch (s', pa, pb) = (s', Returned (Some r'), Returned None)"
proof (induction sch arbitrary: pa pb)
  case Nil
  then show ?case by (auto simp: steps_of_def)
next
  case (Cons e sch)
  obtain w t where e: "e = (w, t)" by (cases e)
  show ?case
  proof (cases w)
    case True
    have st: "claim_step t s' pa = (s', Returned (Some r'))"
      using Cons.prems(1) assms(2) by (auto simp: claim_step_def)
    have "race sch (s', Returned (Some r'), pb) = (s', Returned (Some r'), Returned None)"
      using Cons.prems(2,4) True e by (intro Cons.IH) (auto simp: steps_of_def)
    with st True e show ?thesis by simp
  next
    case False
    have st: "claim_step t s' pb = (s', Returned None)"
      using Cons.prems(2) assms(1) by (auto simp: claim_step_def)
    have "race sch (s', pa, Returned None) = (s', Returned (Some r'), Returned None)"
      using Cons.prems(1,3) False e by (intro Cons.IH) (auto simp: steps_of_def)
    with st False e show ?thesis by simp
  qed
qed

lemma race_after_lock_second:
  assumes "\<And>t. lock_sql t jid s' = (s', 0)" and "get_sql jid s' = Some r'"
  shows "pb = At_get jid \<or> pb = Returned (Some r') \<Longrightarrow>
     pa = At_lock jid \<or> pa = Returned None \<Longrightarrow>
     (pb = At_get jid \<longrightarrow> 1 \<le> steps_of False sch) \<Longrightarrow>
     (pa = At_lock jid \<longrightarrow> 1 \<le> steps_of True sch) \<Longrightarrow>
     race sch (s', pa, pb) = (s', Returned None, Returned (Some r'))"
proof (induction sch arbitrary: pa pb)
  case Nil
  then show ?case by (auto simp: steps_of_def)
next
  case (Cons e sch)
  obtain w t where e: "e = (w, t)" by (cases e)
  show ?case
  proof (cases w)
    case False
    have st: "claim_step t s' pb = (s', Returned (Some r'))"
      using Cons.prems(1) assms(2) by (auto simp: claim_step_def)
    have "race sch (s', pa, Returned (Some r')) = (s', Returned None, Returned (Some r'))"
      using Cons.prems(2,4) False e by (intro Cons.IH) (auto simp: steps_of_def)
    with st False e show ?thesis by simp
  next
    case True
    have st: "claim_step t s' pa = (s', Returned None)"
      using Cons.prems(2) assms(1) by (auto simp: claim_step_def)
    have "race sch (s', Returned None, pb) = (s', Returned None, Returned (Some r'))"
      using Cons.prems(1,3) True e by (intro Cons.IH) (auto simp: steps_of_def)
    with st True e show ?thesis by simp
  qed
qed

text \<open>
  C1. Two workers run \<open>fetch_and_lock_job\<close> on one store with distinct ids, statement by
  statement in any order, each statement atomic. Both SELECTs run first (in either order)
  and return the id of the same eligible row. Then, for every schedule that lets each
  worker finish: exactly one worker returns the row, with state processing, and the other
  returns no job; the final store is the store right after the winner's UPDATE (the
  store before, with that one row set to processing), and an UPDATE of the same kind on
  it changes nothing and counts no row.
\<close>

theorem claim_race_one_winner:
  assumes "primary_key s" and "find_sql ta s = Some jid" and "find_sql tb s = Some jid"
    and "2 \<le> steps_of True sch" and "2 \<le> steps_of False sch"
  shows "\<exists>r\<in>set s. \<exists>t s' r'. job_id r = jid \<and> eligible ta r \<and>
      r' = r\<lparr>state := Processing, updated_at := t\<rparr> \<and>
      s' = map (\<lambda>x. if x = r then r' else x) s \<and>
      fst (lock_sql t jid s) = s' \<and>
      (\<forall>t2. lock_sql t2 jid s' = (s', 0)) \<and>
      (race ((w, ta) # (\<not> w, tb) # sch) (s, At_find, At_find) = (s', Returned (Some r'), Returned None) \<or>
       race ((w, ta) # (\<not> w, tb) # sch) (s, At_find, At_find) = (s', Returned None, Returned (Some r')))"
proof -
  from assms(2) obtain r where "find (eligible ta) s = Some r" and jid: "job_id r = jid"
    by (auto simp: find_sql_def)
  then have r: "r \<in> set s" "eligible ta r" by (auto dest: find_Some_member)
  then have pend: "state r = Pending" by (simp add: eligible_def)
  have finds: "race ((w, ta) # (\<not> w, tb) # sch) (s, At_find, At_find) =
      race sch (s, At_lock jid, At_lock jid)"
    using assms(2,3) by (cases w) (simp_all add: claim_step_def)
  from assms(4) obtain w1 t rest where sch: "sch = (w1, t) # rest"
    by (cases sch) (auto simp: steps_of_def)
  define r' where "r' = r\<lparr>state := Processing, updated_at := t\<rparr>"
  define s' where "s' = map (\<lambda>x. if x = r then r' else x) s"
  have lk: "fst (lock_sql t jid s) = s'" "snd (lock_sql t jid s) \<noteq> 0"
    using lock_sql_pending [OF assms(1) r(1) pend, of t] jid by (simp_all add: s'_def r'_def)
  have again: "\<And>t2. lock_sql t2 jid s' = (s', 0)" and get: "get_sql jid s' = Some r'"
    using locked_store [OF assms(1) r(1) r'_def s'_def] jid by simp_all
  have step: "claim_step t s (At_lock jid) = (s', At_get jid)"
    using lk by (cases "lock_sql t jid s") (simp add: claim_step_def)
  have "race sch (s, At_lock jid, At_lock jid) = (s', Returned (Some r'), Returned None) \<or>
      race sch (s, At_lock jid, At_lock jid) = (s', Returned None, Returned (Some r'))"
  proof (cases w1)
    case True
    have "race rest (s', At_get jid, At_lock jid) = (s', Returned (Some r'), Returned None)"
      using assms(4,5) sch True
      by (intro race_after_lock_first [OF again get]) (auto simp: steps_of_def)
    with step sch True show ?thesis by simp
  next
    case False
    have "race rest (s', At_lock jid, At_get jid) = (s', Returned None, Returned (Some r'))"
      using assms(4,5) sch False
      by (intro race_after_lock_second [OF again get]) (auto simp: steps_of_def)
    with step sch False show ?thesis by simp
  qed
  then have fin: "race ((w, ta) # (\<not> w, tb) # sch) (s, At_find, At_find) =
        (s', Returned (Some r'), Returned None) \<or>
      race ((w, ta) # (\<not> w, tb) # sch) (s, At_find, At_find) =
        (s', Returned None, Returned (Some r'))"
    by (simp only: finds)
  have "\<forall>t2. lock_sql t2 jid s' = (s', 0)" using again by simp
  with fin r jid lk(1) r'_def s'_def show ?thesis
    by (intro bexI [of _ r] exI [of _ t] exI [of _ s'] exI [of _ r']) simp_all
qed

theorem claim_race_one_winner_witness:
  "primary_key [job_a] \<and> find_sql 5 [job_a] = Some ''a'' \<and>
   2 \<le> steps_of True schedule_4 \<and> 2 \<le> steps_of False schedule_4 \<and>
   (\<exists>r\<in>set [job_a]. \<exists>t s' r'. job_id r = ''a'' \<and> eligible 5 r \<and>
      r' = r\<lparr>state := Processing, updated_at := t\<rparr> \<and>
      s' = map (\<lambda>x. if x = r then r' else x) [job_a] \<and>
      fst (lock_sql t ''a'' [job_a]) = s' \<and>
      (\<forall>t2. lock_sql t2 ''a'' s' = (s', 0)) \<and>
      (race ((True, 5) # (\<not> True, 5) # schedule_4) ([job_a], At_find, At_find) =
         (s', Returned (Some r'), Returned None) \<or>
       race ((True, 5) # (\<not> True, 5) # schedule_4) ([job_a], At_find, At_find) =
         (s', Returned None, Returned (Some r'))))"
proof -
  have pk: "primary_key [job_a]" by (simp add: primary_key_def)
  have f: "find_sql 5 [job_a] = Some ''a''"
    by (simp add: find_sql_def eligible_def job_a_def)
  have a: "2 \<le> steps_of True schedule_4" by (simp add: steps_of_def schedule_4_def)
  have b: "2 \<le> steps_of False schedule_4" by (simp add: steps_of_def schedule_4_def)
  from pk f a b claim_race_one_winner [OF pk f f a b, of True] show ?thesis
    by (intro conjI)
qed

lemma race_schedule_4:
  "race ((True, 5) # (False, 5) # schedule_4) ([job_a], At_find, At_find) =
     ([job_a\<lparr>state := Processing, updated_at := 6\<rparr>], Returned None,
      Returned (Some (job_a\<lparr>state := Processing, updated_at := 6\<rparr>)))"
  by (simp add: schedule_4_def claim_step_def find_sql_def lock_sql_def get_sql_def
      sql_update_def eligible_def job_a_def)

section \<open>Resolution\<close>

text \<open>
  \<open>fail_job\<close> with an integer \<open>max_retries = m\<close> and an integer \<open>backoff_base = b\<close>, case
  by case: the job goes to the dead-letter queue; or the delay is no timedelta; or the
  time of the retry is no datetime; or the retry is written.
\<close>

lemma fail_job_int:
  assumes "dict_get config ''max_retries'' (CInt 3) = CInt m"
    and "dict_get config ''backoff_base'' (CInt 2) = CInt b"
  shows "fail_job now s j result config =
    (if m \<le> int (attempts j + 1)
     then Inr (fst (sql_update (\<lambda>r. job_id r = job_id j)
            (\<lambda>r. r\<lparr>state := Dead, attempts := attempts j + 1,
                   output_log := Some (stdout result), error_log := Some (stderr result)\<rparr>)
            (whole_seconds now) s))
     else if \<bar>b ^ (attempts j + 1) div 86400\<bar> > 999999999
     then Inl (OverflowError ''days must have magnitude <= 999999999'')
     else if whole_seconds now + b ^ (attempts j + 1) < 0 \<or>
             DATETIME_MAX < whole_seconds now + b ^ (attempts j + 1)
     then Inl (OverflowError ''date value out of range'')
     else Inr (fst (sql_update (\<lambda>r. job_id r = job_id j)
            (\<lambda>r. r\<lparr>state := Pending, attempts := attempts j + 1,
                   run_at := Py_time (whole_seconds now + b ^ (attempts j + 1)) (microsecond now),
                   output_log := Some (stdout result), error_log := Some (stderr result)\<rparr>)
            (whole_seconds now) s)))"
  using assms
  by (simp add: fail_job_def Let_def py_ge_def py_pow_def timedelta_def datetime_add_def
      adapt_datetime_def)

lemma timedelta_in_range:
  assumes "0 \<le> d" and "d \<le> DATETIME_MAX"
  shows "\<not> \<bar>d div 86400\<bar> > 999999999"
proof -
  have "d div 86400 \<le> DATETIME_MAX div 86400" using assms(2) by (rule zdiv_mono1) simp
  moreover have "0 \<le> d div 86400" using assms(1) by (simp add: pos_imp_zdiv_nonneg_iff)
  ultimately show ?thesis by (simp add: DATETIME_MAX_def)
qed

text \<open>
  A retry that \<open>fail_job\<close> has written for the second \<open>t\<close> is eligible from the second
  \<open>t + 1\<close> on, not in the second \<open>t\<close> itself.
\<close>

lemma retry_eligible_from_next_second:
  "eligible now (r\<lparr>state := Pending, run_at := Py_time t us\<rparr>) = (t < now)"
  by (simp add: eligible_def)

text \<open>
  Outside the range of datetime \<open>fail_job\<close> raises and writes nothing, and so does
  \<open>handle_job_result\<close>: with \<open>backoff_base = 10 ^ 12\<close> at the first failure of a job.
\<close>

lemma fail_job_out_of_range:
  assumes "dict_get config ''max_retries'' (CInt 3) = CInt m"
    and "dict_get config ''backoff_base'' (CInt 2) = CInt b"
    and "int (attempts j + 1) < m" and "0 \<le> whole_seconds now" and "0 \<le> b"
    and "DATETIME_MAX < whole_seconds now + b ^ (attempts j + 1)"
  shows "\<exists>msg. fail_job now s j result config = Inl (OverflowError msg)"
  using assms by (simp add: fail_job_int)

text \<open>
  C3, as the claim states it, at \<open>max_retries = 3\<close> (the default) and
  \<open>backoff_base = 10 ^ 12\<close>, for a claimed job with no attempts yet and a result with exit
  status 1, in the year 2026: the claim has \<open>fail_job\<close> write state pending, attempts 1
  and \<open>run_at = now + 10 ^ 12\<close> seconds; \<open>fail_job\<close> raises OverflowError, since that time
  is after the year 9999, and writes nothing.
\<close>

theorem fail_job_policy_counterexample:
  "dict_get config_big ''max_retries'' (CInt 3) = CInt 3 \<and>
   dict_get config_big ''backoff_base'' (CInt 2) = CInt 1000000000000 \<and>
   (1 :: int) \<le> 3 \<and> (1 :: int) \<le> 1000000000000 \<and>
   returncode exit_1 \<noteq> 0 \<and> int (attempts job_a_claimed + 1) < 3 \<and>
   fail_job in_2026 [job_a_claimed] job_a_claimed exit_1 config_big =
     Inl (OverflowError ''date value out of range'') \<and>
   fail_job in_2026 [job_a_claimed] job_a_claimed exit_1 config_big \<noteq>
     Inr [job_a_claimed\<lparr>state := Pending, attempts := 1,
            run_at := Py_time (whole_seconds in_2026 + 1000000000000 ^ 1) (microsecond in_2026),
            output_log := Some ''out'', error_log := Some ''err'',
            updated_at := whole_seconds in_2026\<rparr>]"
proof -
  have m: "dict_get config_big ''max_retries'' (CInt 3) = CInt 3"
    by (simp add: dict_get_def config_big_def)
  have b: "dict_get config_big ''backoff_base'' (CInt 2) = CInt 1000000000000"
    by (simp add: dict_get_def config_big_def)
  have f: "fail_job in_2026 [job_a_claimed] job_a_claimed exit_1 config_big =
     Inl (OverflowError ''date value out of range'')"
    by (simp add: fail_job_int [OF m b] in_2026_def DATETIME_MAX_def job_a_claimed_def job_a_def)
  from m b f show ?thesis by (simp add: exit_1_def job_a_claimed_def job_a_def)
qed

text \<open>
  C3, amended. Let the store have distinct ids and a row with the id of the claimed job,
  let \<open>max_retries\<close> be an integer \<open>m\<close> and \<open>backoff_base\<close> an integer \<open>b \<ge> 1\<close> (read from
  the configuration, or 3 and 2 where the key is absent), let the result have a non-zero
  exit status, and let \<open>now\<close> be the reading of the clock. With \<open>next = attempts job + 1\<close>:
  \<open>handle_job_result\<close> is \<open>fail_job\<close>, and \<open>fail_job\<close> changes that row and no other, in one
  UPDATE. If \<open>next \<ge> m\<close> the row gets state dead, attempts \<open>next\<close> and the captured output
  and error text. Otherwise, provided \<open>now + b ^ next\<close> seconds is a time that datetime
  has (not after 9999-12-31 23:59:59), the row gets state pending, attempts \<open>next\<close>,
  \<open>run_at = now + b ^ next\<close> seconds, with the microseconds of \<open>now\<close>, and the captured
  texts.
\<close>

theorem fail_job_policy:
  assumes "primary_key s" and "r \<in> set s" and "job_id r = job_id j"
    and "dict_get config ''max_retries'' (CInt 3) = CInt m"
    and "dict_get config ''backoff_base'' (CInt 2) = CInt b"
    and "returncode result \<noteq> 0"
    and "1 \<le> b" and "0 \<le> whole_seconds now"
    and "int (attempts j + 1) < m \<Longrightarrow> whole_seconds now + b ^ (attempts j + 1) \<le> DATETIME_MAX"
  shows "handle_job_result now s j result config = fail_job now s j result config \<and>
    fail_job now s j result config =
      Inr (map (\<lambda>x. if x = r
                 then (if m \<le> int (attempts j + 1)
                       then r\<lparr>state := Dead, attempts := attempts j + 1,
                              output_log := Some (stdout result),
                              error_log := Some (stderr result),
                              updated_at := whole_seconds now\<rparr>
                       else r\<lparr>state := Pending, attempts := attempts j + 1,
                              run_at := Py_time (whole_seconds now + b ^ (attempts j + 1))
                                          (microsecond now),
                              output_log := Some (stdout result),
                              error_log := Some (stderr result),
                              updated_at := whole_seconds now\<rparr>)
                 else x) s)"
proof -
  have upd: "fst (sql_update (\<lambda>x. job_id x = job_id j) assign (whole_seconds now) s) =
     map (\<lambda>x. if x = r then (assign r)\<lparr>updated_at := whole_seconds now\<rparr> else x) s" for assign
    using sql_update_id [OF assms(1,2)] assms(3) by simp
  have h: "handle_job_result now s j result config = fail_job now s j result config"
    using assms(6) by (simp add: handle_job_result_def)
  have pos: "0 \<le> b ^ (attempts j + 1)" using assms(7) by simp
  show ?thesis
  proof (cases "m \<le> int (attempts j + 1)")
    case True
    with h upd show ?thesis by (simp add: fail_job_int [OF assms(4,5)])
  next
    case False
    then have le: "whole_seconds now + b ^ (attempts j + 1) \<le> DATETIME_MAX"
      using assms(9) by simp
    with assms(8) have "b ^ (attempts j + 1) \<le> DATETIME_MAX" by linarith
    with pos have "\<not> \<bar>b ^ (attempts j + 1) div 86400\<bar> > 999999999"
      by (rule timedelta_in_range)
    moreover have "\<not> (whole_seconds now + b ^ (attempts j + 1) < 0 \<or>
             DATETIME_MAX < whole_seconds now + b ^ (attempts j + 1))"
      using le pos assms(8) by linarith
    ultimately show ?thesis using False h upd
      by (simp only: fail_job_int [OF assms(4,5)] if_False if_True simp_thms)
  qed
qed

theorem fail_job_policy_witness:
  "fail_job (quarter_past 10) [job_a_claimed] job_a_claimed exit_1 DEFAULT_CONFIG =
     Inr [job_a_claimed\<lparr>state := Pending, attempts := 1, run_at := Py_time 12 250000,
            output_log := Some ''out'', error_log := Some ''err'', updated_at := 10\<rparr>] \<and>
   fail_job (quarter_past 10) [job_a_claimed] job_a_claimed exit_1 [''max_retries'' \<mapsto> CInt 1] =
     Inr [job_a_claimed\<lparr>state := Dead, attempts := 1,
            output_log := Some ''out'', error_log := Some ''err'', updated_at := 10\<rparr>]"
proof -
  have pk: "primary_key [job_a_claimed]" by (simp add: primary_key_def)
  have r: "job_a_claimed \<in> set [job_a_claimed]" by simp
  have m3: "dict_get DEFAULT_CONFIG ''max_retries'' (CInt 3) = CInt 3"
    by (simp add: dict_get_def DEFAULT_CONFIG_def)
  have b2: "dict_get DEFAULT_CONFIG ''backoff_base'' (CInt 2) = CInt 2"
    by (simp add: dict_get_def DEFAULT_CONFIG_def)
  have m1: "dict_get [''max_retries'' \<mapsto> CInt 1] ''max_retries'' (CInt 3) = CInt 1"
    by (simp add: dict_get_def)
  have b2': "dict_get [''max_retries'' \<mapsto> CInt 1] ''backoff_base'' (CInt 2) = CInt 2"
    by (simp add: dict_get_def)
  have rc: "returncode exit_1 \<noteq> 0" by (simp add: exit_1_def)
  have b: "(1 :: int) \<le> 2" by simp
  have t: "0 \<le> whole_seconds (quarter_past 10)" by (simp add: quarter_past_def)
  have le: "whole_seconds (quarter_past 10) + 2 ^ (attempts job_a_claimed + 1) \<le> DATETIME_MAX"
    by (simp add: quarter_past_def DATETIME_MAX_def job_a_claimed_def job_a_def)
  show ?thesis
    using fail_job_policy [OF pk r refl m3 b2 rc b t le]
      fail_job_policy [OF pk r refl m1 b2' rc b t le]
    by (simp add: exit_1_def quarter_past_def job_a_claimed_def job_a_def)
qed

text \<open>
  C4. Let the store have distinct ids and the result have exit status 0. Then
  \<open>handle_job_result\<close> changes the row with the id of the claimed job and no other: its
  state becomes completed and its \<open>output_log\<close> and \<open>error_log\<close> the captured stdout and
  stderr; its attempts stay as they are. And when a job is enqueued, then claimed by
  \<open>fetch_and_lock_job\<close>, then resolved with such a result, its row ends with state
  completed and attempts 0.
\<close>

theorem success_resolution:
  assumes "primary_key s" and "returncode result = 0"
  shows "(\<forall>r\<in>set s. job_id r = job_id j \<longrightarrow>
       handle_job_result now s j result config =
         Inr (map (\<lambda>x. if x = r
                    then r\<lparr>state := Completed, output_log := Some (stdout result),
                           error_log := Some (stderr result),
                           updated_at := whole_seconds now\<rparr>
                    else x) s)) \<and>
     (\<forall>s0 s1 j1. enqueue t0 s (Some jid) (Some cmd) = (s0, Success) \<and>
        fetch_and_lock_job t1 s0 = (s1, Some j1) \<and> job_id j1 = jid \<longrightarrow>
        (\<exists>s2 row. handle_job_result t2 s1 j1 result config = Inr s2 \<and>
           get_sql jid s2 = Some row \<and> state row = Completed \<and> attempts row = 0 \<and>
           output_log row = Some (stdout result) \<and> error_log row = Some (stderr result)))"
proof (intro conjI ballI allI impI)
  fix r assume "r \<in> set s" "job_id r = job_id j"
  with assms show "handle_job_result now s j result config =
         Inr (map (\<lambda>x. if x = r
                    then r\<lparr>state := Completed, output_log := Some (stdout result),
                           error_log := Some (stderr result),
                           updated_at := whole_seconds now\<rparr>
                    else x) s)"
    by (intro handle_job_result_success)
next
  fix s0 s1 j1
  assume a: "enqueue t0 s (Some jid) (Some cmd) = (s0, Success) \<and>
        fetch_and_lock_job t1 s0 = (s1, Some j1) \<and> job_id j1 = jid"
  let ?new = "\<lparr>job_id = jid, command = cmd, state = Pending, attempts = 0,
                       created_at = t0, updated_at = t0, run_at = Sql_time t0,
                       output_log = None, error_log = None\<rparr>"
  from a have s0: "s0 = s @ [?new]" and fresh: "jid \<notin> set (map job_id s)"
    using enqueue_Success by blast+
  with assms(1) have pk0: "primary_key s0" by (simp add: primary_key_def)
  from fetch_and_lock_job_Some [OF pk0] a obtain r where
    r: "r \<in> set s0" "j1 = r\<lparr>state := Processing, updated_at := t1\<rparr>"
       "s1 = map (\<lambda>x. if x = r then j1 else x) s0"
    by blast
  from r(2) a have "job_id r = jid" by simp
  with r(1) s0 fresh have rnew: "r = ?new" by auto
  have pk1: "primary_key s1" unfolding r(3) using pk0 r(2) by (intro primary_key_replace) simp_all
  have in1: "j1 \<in> set s1" using r(1,3) by (auto simp: image_iff)
  let ?row = "j1\<lparr>state := Completed, output_log := Some (stdout result),
                   error_log := Some (stderr result), updated_at := whole_seconds t2\<rparr>"
  let ?s2 = "map (\<lambda>x. if x = j1 then ?row else x) s1"
  have h: "handle_job_result t2 s1 j1 result config = Inr ?s2"
    using pk1 in1 assms(2) by (intro handle_job_result_success) simp_all
  have pk2: "primary_key ?s2" using pk1 by (intro primary_key_replace) simp_all
  have "?row \<in> set ?s2" using in1 by (auto simp: image_iff)
  with pk2 have "get_sql (job_id ?row) ?s2 = Some ?row" by (rule get_sql_member)
  then have g: "get_sql jid ?s2 = Some ?row" using a by simp
  have "state ?row = Completed \<and> attempts ?row = 0 \<and>
           output_log ?row = Some (stdout result) \<and> error_log ?row = Some (stderr result)"
    using r(2) rnew by simp
  with h g show "\<exists>s2 row. handle_job_result t2 s1 j1 result config = Inr s2 \<and>
           get_sql jid s2 = Some row \<and> state row = Completed \<and> attempts row = 0 \<and>
           output_log row = Some (stdout result) \<and> error_log row = Some (stderr result)"
    by blast
qed

theorem success_resolution_witness:
  "handle_job_result (quarter_past 10) [job_a_claimed] job_a_claimed exit_0 DEFAULT_CONFIG =
     Inr [job_a_claimed\<lparr>state := Completed, output_log := Some ''out'',
            error_log := Some ''err'', updated_at := 10\<rparr>] \<and>
   (\<exists>s2 row. handle_job_result (quarter_past 9) [job_a_claimed\<lparr>command := ''true''\<rparr>]
        (job_a_claimed\<lparr>command := ''true''\<rparr>) exit_0 DEFAULT_CONFIG = Inr s2 \<and>
      get_sql ''a'' s2 = Some row \<and> state row = Completed \<and> attempts row = 0)"
proof -
  have pk: "primary_key []" by (simp add: primary_key_def)
  have pk1: "primary_key [job_a_claimed]" by (simp add: primary_key_def)
  have rc: "returncode exit_0 = 0" by (simp add: exit_0_def)
  have e: "enqueue 1 [] (Some ''a'') (Some ''true'') = ([job_a\<lparr>command := ''true''\<rparr>], Success)"
    by (simp add: enqueue_def job_a_def)
  have f: "fetch_and_lock_job 5 [job_a\<lparr>command := ''true''\<rparr>] =
      ([job_a_claimed\<lparr>command := ''true''\<rparr>], Some (job_a_claimed\<lparr>command := ''true''\<rparr>))"
    by (simp add: fetch_and_lock_job_def find_sql_def eligible_def lock_and_get_def lock_sql_def
        sql_update_def get_sql_def job_a_claimed_def job_a_def)
  have i: "job_id (job_a_claimed\<lparr>command := ''true''\<rparr>) = ''a''"
    by (simp add: job_a_claimed_def job_a_def)
  from success_resolution [OF pk1 rc, of job_a_claimed "quarter_past 10" DEFAULT_CONFIG]
  have 1: "handle_job_result (quarter_past 10) [job_a_claimed] job_a_claimed exit_0 DEFAULT_CONFIG =
     Inr [job_a_claimed\<lparr>state := Completed, output_log := Some ''out'',
            error_log := Some ''err'', updated_at := 10\<rparr>]"
    by (simp add: exit_0_def quarter_past_def)
  from success_resolution [OF pk rc, of job_a "quarter_past 0" DEFAULT_CONFIG 1 "''a''" "''true''" 5
      "quarter_past 9"] e f i
  have 2: "\<exists>s2 row. handle_job_result (quarter_past 9) [job_a_claimed\<lparr>command := ''true''\<rparr>]
        (job_a_claimed\<lparr>command := ''true''\<rparr>) exit_0 DEFAULT_CONFIG = Inr s2 \<and>
      get_sql ''a'' s2 = Some row \<and> state row = Completed \<and> attempts row = 0"
    by blast
  from 1 2 show ?thesis by blast
qed

text \<open>
  C7. When \<open>handle_job_result\<close> (or \<open>fail_job\<close> itself) has resolved a job and is then
  applied again, at any reading of the clock, with the same claimed record, the same
  result and the same configuration, the second application does not change any row's
  attempts again. Either it returns, and leaves every row's attempts, state, \<open>output_log\<close>
  and \<open>error_log\<close> as the first one wrote them (after the failure path the job's row has
  attempts \<open>attempts job + 1\<close>, not more; at the same reading of the clock the store after
  it is the store after the first); or the time of the retry has left the range of
  datetime since the first application, and it raises OverflowError before it writes. It
  returns whenever the time of the retry, counted from the second reading of the clock,
  is in the range of datetime, and in the second in which the first application ran. The
  value written is computed from the record the worker holds, not from the row in the
  store.
\<close>

theorem resolution_idempotent:
  "(handle_job_result t1 s j result config = Inr s1 \<longrightarrow>
      ((\<exists>s2. handle_job_result t2 s1 j result config = Inr s2 \<and>
          map attempts s2 = map attempts s1 \<and> map state s2 = map state s1 \<and>
          map output_log s2 = map output_log s1 \<and> map error_log s2 = map error_log s1 \<and>
          (t2 = t1 \<longrightarrow> s2 = s1)) \<or>
       handle_job_result t2 s1 j result config = Inl (OverflowError ''date value out of range'')) \<and>
      (whole_seconds t2 = whole_seconds t1 \<longrightarrow>
         (\<exists>s2. handle_job_result t2 s1 j result config = Inr s2)) \<and>
      (\<forall>b. dict_get config ''backoff_base'' (CInt 2) = CInt b \<and>
         0 \<le> whole_seconds t2 + b ^ (attempts j + 1) \<and>
         whole_seconds t2 + b ^ (attempts j + 1) \<le> DATETIME_MAX \<longrightarrow>
         (\<exists>s2. handle_job_result t2 s1 j result config = Inr s2))) \<and>
   (fail_job t1 s j result config = Inr s1 \<longrightarrow>
      ((\<exists>s2. fail_job t2 s1 j result config = Inr s2 \<and>
          map attempts s2 = map attempts s1 \<and> map state s2 = map state s1 \<and>
          map output_log s2 = map output_log s1 \<and> map error_log s2 = map error_log s1 \<and>
          (\<forall>r\<in>set s2. job_id r = job_id j \<longrightarrow> attempts r = attempts j + 1) \<and>
          (t2 = t1 \<longrightarrow> s2 = s1)) \<or>
       fail_job t2 s1 j result config = Inl (OverflowError ''date value out of range'')) \<and>
      (whole_seconds t2 = whole_seconds t1 \<longrightarrow>
         (\<exists>s2. fail_job t2 s1 j result config = Inr s2)) \<and>
      (\<forall>b. dict_get config ''backoff_base'' (CInt 2) = CInt b \<and>
         0 \<le> whole_seconds t2 + b ^ (attempts j + 1) \<and>
         whole_seconds t2 + b ^ (attempts j + 1) \<le> DATETIME_MAX \<longrightarrow>
         (\<exists>s2. fail_job t2 s1 j result config = Inr s2)))"
proof -
  have fj: "((\<exists>s2. fail_job t2 s1 j result config = Inr s2 \<and>
          map attempts s2 = map attempts s1 \<and> map state s2 = map state s1 \<and>
          map output_log s2 = map output_log s1 \<and> map error_log s2 = map error_log s1 \<and>
          (\<forall>r\<in>set s2. job_id r = job_id j \<longrightarrow> attempts r = attempts j + 1) \<and>
          (t2 = t1 \<longrightarrow> s2 = s1)) \<or>
       fail_job t2 s1 j result config = Inl (OverflowError ''date value out of range'')) \<and>
      (whole_seconds t2 = whole_seconds t1 \<longrightarrow>
         (\<exists>s2. fail_job t2 s1 j result config = Inr s2)) \<and>
      (\<forall>b. dict_get config ''backoff_base'' (CInt 2) = CInt b \<and>
         0 \<le> whole_seconds t2 + b ^ (attempts j + 1) \<and>
         whole_seconds t2 + b ^ (attempts j + 1) \<le> DATETIME_MAX \<longrightarrow>
         (\<exists>s2. fail_job t2 s1 j result config = Inr s2))"
    if first: "fail_job t1 s j result config = Inr s1" for s1
  proof -
    from first obtain m where m: "dict_get config ''max_retries'' (CInt 3) = CInt m"
      by (cases "dict_get config ''max_retries'' (CInt 3)")
         (auto simp: fail_job_def Let_def py_ge_def)
    show ?thesis
    proof (cases "m \<le> int (attempts j + 1)")
      case True
      with first m show ?thesis
        by (auto simp: fail_job_def Let_def py_ge_def sql_update_def)
    next
      case False
      with first m obtain b where b: "dict_get config ''backoff_base'' (CInt 2) = CInt b"
        by (cases "dict_get config ''backoff_base'' (CInt 2)")
           (auto simp: fail_job_def Let_def py_ge_def py_pow_def)
      from first False b show ?thesis
        unfolding fail_job_int [OF m b]
        by (auto simp: sql_update_def split: if_splits)
    qed
  qed
  have hj: "((\<exists>s2. handle_job_result t2 s1 j result config = Inr s2 \<and>
          map attempts s2 = map attempts s1 \<and> map state s2 = map state s1 \<and>
          map output_log s2 = map output_log s1 \<and> map error_log s2 = map error_log s1 \<and>
          (t2 = t1 \<longrightarrow> s2 = s1)) \<or>
       handle_job_result t2 s1 j result config = Inl (OverflowError ''date value out of range'')) \<and>
      (whole_seconds t2 = whole_seconds t1 \<longrightarrow>
         (\<exists>s2. handle_job_result t2 s1 j result config = Inr s2)) \<and>
      (\<forall>b. dict_get config ''backoff_base'' (CInt 2) = CInt b \<and>
         0 \<le> whole_seconds t2 + b ^ (attempts j + 1) \<and>
         whole_seconds t2 + b ^ (attempts j + 1) \<le> DATETIME_MAX \<longrightarrow>
         (\<exists>s2. handle_job_result t2 s1 j result config = Inr s2))"
    if first: "handle_job_result t1 s j result config = Inr s1" for s1
  proof (cases "returncode result = 0")
    case True
    with first show ?thesis by (auto simp: handle_job_result_def sql_update_def)
  next
    case False
    with first have "fail_job t1 s j result config = Inr s1"
      by (simp add: handle_job_result_def)
    from fj [OF this] have "((\<exists>s2. fail_job t2 s1 j result config = Inr s2 \<and>
          map attempts s2 = map attempts s1 \<and> map state s2 = map state s1 \<and>
          map output_log s2 = map output_log s1 \<and> map error_log s2 = map error_log s1 \<and>
          (t2 = t1 \<longrightarrow> s2 = s1)) \<or>
       fail_job t2 s1 j result config = Inl (OverflowError ''date value out of range'')) \<and>
      (whole_seconds t2 = whole_seconds t1 \<longrightarrow>
         (\<exists>s2. fail_job t2 s1 j result config = Inr s2)) \<and>
      (\<forall>b. dict_get config ''backoff_base'' (CInt 2) = CInt b \<and>
         0 \<le> whole_seconds t2 + b ^ (attempts j + 1) \<and>
         whole_seconds t2 + b ^ (attempts j + 1) \<le> DATETIME_MAX \<longrightarrow>
         (\<exists>s2. fail_job t2 s1 j result config = Inr s2))"
      by blast
    moreover have "handle_job_result t2 s1 j result config = fail_job t2 s1 j result config"
      using False by (simp add: handle_job_result_def)
    ultimately show ?thesis by (simp only:) blast
  qed
  from fj hj show ?thesis by blast
qed

theorem resolution_idempotent_witness:
  "fail_job (quarter_past 10) [job_a_claimed] job_a_claimed exit_1 DEFAULT_CONFIG =
     Inr [job_a_failed] \<and>
   (\<exists>s2. fail_job (quarter_past 20) [job_a_failed] job_a_claimed exit_1 DEFAULT_CONFIG = Inr s2 \<and>
      map attempts s2 = map attempts [job_a_failed]) \<and>
   (\<exists>s2. fail_job (quarter_past 10) [job_a_failed] job_a_claimed exit_1 DEFAULT_CONFIG = Inr s2)"
proof -
  have 1: "fail_job (quarter_past 10) [job_a_claimed] job_a_claimed exit_1 DEFAULT_CONFIG =
      Inr [job_a_failed]"
    by (simp add: fail_job_def Let_def dict_get_def DEFAULT_CONFIG_def py_ge_def py_pow_def
        timedelta_def datetime_add_def adapt_datetime_def DATETIME_MAX_def quarter_past_def
        sql_update_def exit_1_def job_a_failed_def job_a_claimed_def job_a_def)
  have 2: "fail_job (quarter_past 20) [job_a_failed] job_a_claimed exit_1 DEFAULT_CONFIG \<noteq>
      Inl (OverflowError ''date value out of range'')"
    by (simp add: fail_job_def Let_def dict_get_def DEFAULT_CONFIG_def py_ge_def py_pow_def
        timedelta_def datetime_add_def DATETIME_MAX_def quarter_past_def job_a_claimed_def
        job_a_def)
  from resolution_idempotent [of "quarter_past 10" "[job_a_claimed]" job_a_claimed exit_1
      DEFAULT_CONFIG "[job_a_failed]" "quarter_past 20", THEN conjunct2, THEN mp, OF 1,
      THEN conjunct1] 2
  have 3: "\<exists>s2. fail_job (quarter_past 20) [job_a_failed] job_a_claimed exit_1 DEFAULT_CONFIG =
      Inr s2 \<and> map attempts s2 = map attempts [job_a_failed]"
    by blast
  from resolution_idempotent [of "quarter_past 10" "[job_a_claimed]" job_a_claimed exit_1
      DEFAULT_CONFIG "[job_a_failed]" "quarter_past 10", THEN conjunct2, THEN mp, OF 1,
      THEN conjunct2, THEN conjunct1]
  have 4: "\<exists>s2. fail_job (quarter_past 10) [job_a_failed] job_a_claimed exit_1 DEFAULT_CONFIG =
      Inr s2"
    by blast
  from 1 3 4 show ?thesis by blast
qed

section \<open>The dead-letter queue\<close>

text \<open>
  C8. On a store with distinct ids, \<open>dlq_retry\<close> at time \<open>now\<close> on the id of a row whose
  state is dead changes that row and no other: state pending, attempts 0, \<open>run_at = now\<close>
  (the \<open>CURRENT_TIMESTAMP\<close> of the UPDATE); the row is then eligible at \<open>now\<close> and at every
  later time. On an id that has no row,
  or whose row is not dead, it reports the error "not found in DLQ" and the store is as
  before.
\<close>

theorem dlq_retry_contract:
  assumes "primary_key s"
  shows "(\<forall>r\<in>set s. job_id r = jid \<and> state r = Dead \<longrightarrow>
       dlq_retry now s jid =
         (map (\<lambda>x. if x = r
                then r\<lparr>state := Pending, attempts := 0, run_at := Sql_time now, updated_at := now\<rparr>
                else x) s, Success) \<and>
       (\<forall>t\<ge>now. eligible t (r\<lparr>state := Pending, attempts := 0, run_at := Sql_time now, updated_at := now\<rparr>)))
    \<and> ((\<forall>r\<in>set s. job_id r = jid \<longrightarrow> state r \<noteq> Dead) \<longrightarrow>
         dlq_retry now s jid = (s, Error_echo (Not_in_dlq jid)))"
proof (intro conjI ballI impI allI)
  fix r assume r: "r \<in> set s" "job_id r = jid \<and> state r = Dead"
  have st: "fst (sql_update (\<lambda>x. job_id x = jid \<and> state x = Dead)
             (\<lambda>r. r\<lparr>state := Pending, attempts := 0, run_at := Sql_time now\<rparr>) now s) =
     map (\<lambda>x. if x = r
                then r\<lparr>state := Pending, attempts := 0, run_at := Sql_time now, updated_at := now\<rparr>
                else x) s"
    using sql_update_one [OF assms r(1), of "\<lambda>x. state x = Dead"] r(2) by simp
  have rc: "snd (sql_update (\<lambda>x. job_id x = jid \<and> state x = Dead)
             (\<lambda>r. r\<lparr>state := Pending, attempts := 0, run_at := Sql_time now\<rparr>) now s) \<noteq> 0"
    using r by (auto simp: sql_update_rowcount)
  from st rc show "dlq_retry now s jid =
         (map (\<lambda>x. if x = r
                then r\<lparr>state := Pending, attempts := 0, run_at := Sql_time now, updated_at := now\<rparr>
                else x) s, Success)"
    by (cases "sql_update (\<lambda>x. job_id x = jid \<and> state x = Dead)
             (\<lambda>r. r\<lparr>state := Pending, attempts := 0, run_at := Sql_time now\<rparr>) now s")
       (simp add: dlq_retry_def)
next
  fix r t assume "now \<le> (t::int)"
  then show "eligible t (r\<lparr>state := Pending, attempts := 0, run_at := Sql_time now, updated_at := now\<rparr>)"
    by (simp add: eligible_def)
next
  assume "\<forall>r\<in>set s. job_id r = jid \<longrightarrow> state r \<noteq> Dead"
  then have "sql_update (\<lambda>x. job_id x = jid \<and> state x = Dead)
             (\<lambda>r. r\<lparr>state := Pending, attempts := 0, run_at := Sql_time now\<rparr>) now s = (s, 0)"
    by (intro sql_update_none) auto
  then show "dlq_retry now s jid = (s, Error_echo (Not_in_dlq jid))"
    by (simp add: dlq_retry_def)
qed

theorem dlq_retry_contract_witness:
  "dlq_retry 20 [job_dead] ''a'' =
     ([job_dead\<lparr>state := Pending, attempts := 0, run_at := Sql_time 20, updated_at := 20\<rparr>], Success) \<and>
   eligible 20 (job_dead\<lparr>state := Pending, attempts := 0, run_at := Sql_time 20, updated_at := 20\<rparr>) \<and>
   dlq_retry 20 [job_dead] ''b'' = ([job_dead], Error_echo (Not_in_dlq ''b'')) \<and>
   dlq_retry 20 [job_a] ''a'' = ([job_a], Error_echo (Not_in_dlq ''a''))"
proof -
  have pk: "primary_key [job_dead]" "primary_key [job_a]" by (simp_all add: primary_key_def)
  show ?thesis
    using dlq_retry_contract [OF pk(1), of "''a''" 20] dlq_retry_contract [OF pk(1), of "''b''" 20]
      dlq_retry_contract [OF pk(2), of "''a''" 20]
    by (simp add: job_dead_def job_a_def)
qed

section \<open>Execution\<close>

text \<open>
  C9. \<open>run_job\<close> returns a result in every case. When the command ends, with whatever
  exit status, \<open>run_job\<close> returns its result as it is, and a non-zero status goes to
  \<open>fail_job\<close>. When the executor raises, \<open>run_job\<close> returns exit status 1, empty output
  and the text of the exception as error text, and \<open>handle_job_result\<close> sends this result
  to \<open>fail_job\<close> as well.
\<close>

theorem run_job_total:
  "(ex (command j) = Process_ended result \<longrightarrow>
      run_job ex j = result \<and>
      (returncode result \<noteq> 0 \<longrightarrow>
         handle_job_result now s j (run_job ex j) config = fail_job now s j result config)) \<and>
   (ex (command j) = Raised e \<longrightarrow>
      run_job ex j = \<lparr>returncode = 1, stdout = [], stderr = e\<rparr> \<and>
      handle_job_result now s j (run_job ex j) config =
        fail_job now s j \<lparr>returncode = 1, stdout = [], stderr = e\<rparr> config)"
  by (simp add: run_job_def handle_job_result_def)

theorem run_job_total_witness:
  "run_job (\<lambda>c. Process_ended exit_1) job_a_claimed = exit_1 \<and>
   run_job (\<lambda>c. Raised ''fork failed'') job_a_claimed =
     \<lparr>returncode = 1, stdout = [], stderr = ''fork failed''\<rparr> \<and>
   handle_job_result (quarter_past 10) [job_a_claimed] job_a_claimed
       (run_job (\<lambda>c. Raised ''fork failed'') job_a_claimed) DEFAULT_CONFIG =
     Inr [job_a_claimed\<lparr>state := Pending, attempts := 1, run_at := Py_time 12 250000,
            output_log := Some [], error_log := Some ''fork failed'', updated_at := 10\<rparr>]"
proof -
  have f: "fail_job (quarter_past 10) [job_a_claimed] job_a_claimed
          \<lparr>returncode = 1, stdout = [], stderr = ''fork failed''\<rparr> DEFAULT_CONFIG =
     Inr [job_a_claimed\<lparr>state := Pending, attempts := 1, run_at := Py_time 12 250000,
            output_log := Some [], error_log := Some ''fork failed'', updated_at := 10\<rparr>]"
    by (simp add: fail_job_def Let_def dict_get_def DEFAULT_CONFIG_def py_ge_def py_pow_def
        timedelta_def datetime_add_def adapt_datetime_def DATETIME_MAX_def quarter_past_def
        sql_update_def job_a_claimed_def job_a_def)
  have 1: "run_job (\<lambda>c. Process_ended exit_1) job_a_claimed = exit_1"
    using run_job_total [of "\<lambda>c. Process_ended exit_1" job_a_claimed exit_1 "quarter_past 10"
        "[job_a_claimed]" DEFAULT_CONFIG "''fork failed''"]
    by blast
  have 2: "run_job (\<lambda>c. Raised ''fork failed'') job_a_claimed =
       \<lparr>returncode = 1, stdout = [], stderr = ''fork failed''\<rparr> \<and>
     handle_job_result (quarter_past 10) [job_a_claimed] job_a_claimed
       (run_job (\<lambda>c. Raised ''fork failed'') job_a_claimed) DEFAULT_CONFIG =
     fail_job (quarter_past 10) [job_a_claimed] job_a_claimed
          \<lparr>returncode = 1, stdout = [], stderr = ''fork failed''\<rparr> DEFAULT_CONFIG"
    using run_job_total [of "\<lambda>c. Raised ''fork failed''" job_a_claimed exit_1 "quarter_past 10"
        "[job_a_claimed]" DEFAULT_CONFIG "''fork failed''"]
    by blast
  from 2 [THEN conjunct2] f have 3: "handle_job_result (quarter_past 10) [job_a_claimed] job_a_claimed
       (run_job (\<lambda>c. Raised ''fork failed'') job_a_claimed) DEFAULT_CONFIG =
     Inr [job_a_claimed\<lparr>state := Pending, attempts := 1, run_at := Py_time 12 250000,
            output_log := Some [], error_log := Some ''fork failed'', updated_at := 10\<rparr>]"
    by (rule trans)
  from 1 2 [THEN conjunct1] 3 show ?thesis by blast
qed

section \<open>Configuration\<close>

text \<open>
  C10. \<open>config.get\<close> on a configuration without the key \<open>max_retries\<close> gives 3, without
  the key \<open>backoff_base\<close> gives 2, and for a key that is present gives its value as it is.
  So without the key \<open>max_retries\<close> \<open>fail_job\<close> sends the job to the dead-letter queue
  exactly when \<open>attempts job + 1 \<ge> 3\<close>, and without the key \<open>backoff_base\<close> the delay of a
  retry is \<open>2 ^ (attempts job + 1)\<close> seconds; in both cases \<open>fail_job\<close> does what it does
  with the default added to the configuration. Where both keys are present \<open>fail_job\<close>
  depends on their values alone, whatever they are. \<open>get_config\<close> returns a
  configuration file that exists and parses as it is, and the loop runs with it.
\<close>

theorem config_defaults:
  "(config ''max_retries'' = None \<longrightarrow>
      dict_get config ''max_retries'' (CInt 3) = CInt 3 \<and>
      fail_job now s j result config = fail_job now s j result (config(''max_retries'' \<mapsto> CInt 3)) \<and>
      (\<forall>b. dict_get config ''backoff_base'' (CInt 2) = CInt b \<longrightarrow>
         fail_job now s j result config =
           (if 3 \<le> int (attempts j + 1)
            then Inr (fst (sql_update (\<lambda>r. job_id r = job_id j)
                   (\<lambda>r. r\<lparr>state := Dead, attempts := attempts j + 1,
                          output_log := Some (stdout result), error_log := Some (stderr result)\<rparr>)
                   (whole_seconds now) s))
            else if \<bar>b ^ (attempts j + 1) div 86400\<bar> > 999999999
            then Inl (OverflowError ''days must have magnitude <= 999999999'')
            else if whole_seconds now + b ^ (attempts j + 1) < 0 \<or>
                    DATETIME_MAX < whole_seconds now + b ^ (attempts j + 1)
            then Inl (OverflowError ''date value out of range'')
            else Inr (fst (sql_update (\<lambda>r. job_id r = job_id j)
                   (\<lambda>r. r\<lparr>state := Pending, attempts := attempts j + 1,
                          run_at := Py_time (whole_seconds now + b ^ (attempts j + 1))
                                      (microsecond now),
                          output_log := Some (stdout result), error_log := Some (stderr result)\<rparr>)
                   (whole_seconds now) s))))) \<and>
   (config ''backoff_base'' = None \<longrightarrow>
      dict_get config ''backoff_base'' (CInt 2) = CInt 2 \<and>
      fail_job now s j result config = fail_job now s j result (config(''backoff_base'' \<mapsto> CInt 2)) \<and>
      (\<forall>m. dict_get config ''max_retries'' (CInt 3) = CInt m \<longrightarrow>
         fail_job now s j result config =
           (if m \<le> int (attempts j + 1)
            then Inr (fst (sql_update (\<lambda>r. job_id r = job_id j)
                   (\<lambda>r. r\<lparr>state := Dead, attempts := attempts j + 1,
                          output_log := Some (stdout result), error_log := Some (stderr result)\<rparr>)
                   (whole_seconds now) s))
            else if \<bar>2 ^ (attempts j + 1) div 86400\<bar> > (999999999 :: int)
            then Inl (OverflowError ''days must have magnitude <= 999999999'')
            else if whole_seconds now + 2 ^ (attempts j + 1) < 0 \<or>
                    DATETIME_MAX < whole_seconds now + 2 ^ (attempts j + 1)
            then Inl (OverflowError ''date value out of range'')
            else Inr (fst (sql_update (\<lambda>r. job_id r = job_id j)
                   (\<lambda>r. r\<lparr>state := Pending, attempts := attempts j + 1,
                          run_at := Py_time (whole_seconds now + 2 ^ (attempts j + 1))
                                      (microsecond now),
                          output_log := Some (stdout result), error_log := Some (stderr result)\<rparr>)
                   (whole_seconds now) s))))) \<and>
   (\<forall>key v dflt. config key = Some v \<longrightarrow> dict_get config key dflt = v) \<and>
   (\<forall>v w. config ''max_retries'' = Some v \<and> config ''backoff_base'' = Some w \<longrightarrow>
      fail_job now s j result config =
        fail_job now s j result [''max_retries'' \<mapsto> v, ''backoff_base'' \<mapsto> w]) \<and>
   get_config (Json_object config) = (config, Json_object config) \<and>
   worker_loop (Json_object config) ticks s = loop config ticks False s"
proof (intro conjI impI allI)
  assume "config ''max_retries'' = None"
  then show "dict_get config ''max_retries'' (CInt 3) = CInt 3" by (simp add: dict_get_def)
next
  assume "config ''max_retries'' = None"
  then show "fail_job now s j result config =
      fail_job now s j result (config(''max_retries'' \<mapsto> CInt 3))"
    by (simp add: fail_job_def dict_get_def)
next
  fix b
  assume "config ''max_retries'' = None" and b: "dict_get config ''backoff_base'' (CInt 2) = CInt b"
  then have m: "dict_get config ''max_retries'' (CInt 3) = CInt 3" by (simp add: dict_get_def)
  show "fail_job now s j result config =
           (if 3 \<le> int (attempts j + 1)
            then Inr (fst (sql_update (\<lambda>r. job_id r = job_id j)
                   (\<lambda>r. r\<lparr>state := Dead, attempts := attempts j + 1,
                          output_log := Some (stdout result), error_log := Some (stderr result)\<rparr>)
                   (whole_seconds now) s))
            else if \<bar>b ^ (attempts j + 1) div 86400\<bar> > 999999999
            then Inl (OverflowError ''days must have magnitude <= 999999999'')
            else if whole_seconds now + b ^ (attempts j + 1) < 0 \<or>
                    DATETIME_MAX < whole_seconds now + b ^ (attempts j + 1)
            then Inl (OverflowError ''date value out of range'')
            else Inr (fst (sql_update (\<lambda>r. job_id r = job_id j)
                   (\<lambda>r. r\<lparr>state := Pending, attempts := attempts j + 1,
                          run_at := Py_time (whole_seconds now + b ^ (attempts j + 1))
                                      (microsecond now),
                          output_log := Some (stdout result), error_log := Some (stderr result)\<rparr>)
                   (whole_seconds now) s)))"
    by (rule fail_job_int [OF m b])
next
  assume "config ''backoff_base'' = None"
  then show "dict_get config ''backoff_base'' (CInt 2) = CInt 2" by (simp add: dict_get_def)
next
  assume "config ''backoff_base'' = None"
  then show "fail_job now s j result config =
      fail_job now s j result (config(''backoff_base'' \<mapsto> CInt 2))"
    by (simp add: fail_job_def dict_get_def)
next
  fix m
  assume "config ''backoff_base'' = None" and m: "dict_get config ''max_retries'' (CInt 3) = CInt m"
  then have b: "dict_get config ''backoff_base'' (CInt 2) = CInt 2" by (simp add: dict_get_def)
  show "fail_job now s j result config =
           (if m \<le> int (attempts j + 1)
            then Inr (fst (sql_update (\<lambda>r. job_id r = job_id j)
                   (\<lambda>r. r\<lparr>state := Dead, attempts := attempts j + 1,
                          output_log := Some (stdout result), error_log := Some (stderr result)\<rparr>)
                   (whole_seconds now) s))
            else if \<bar>2 ^ (attempts j + 1) div 86400\<bar> > (999999999 :: int)
            then Inl (OverflowError ''days must have magnitude <= 999999999'')
            else if whole_seconds now + 2 ^ (attempts j + 1) < 0 \<or>
                    DATETIME_MAX < whole_seconds now + 2 ^ (attempts j + 1)
            then Inl (OverflowError ''date value out of range'')
            else Inr (fst (sql_update (\<lambda>r. job_id r = job_id j)
                   (\<lambda>r. r\<lparr>state := Pending, attempts := attempts j + 1,
                          run_at := Py_time (whole_seconds now + 2 ^ (attempts j + 1))
                                      (microsecond now),
                          output_log := Some (stdout result), error_log := Some (stderr result)\<rparr>)
                   (whole_seconds now) s)))"
    by (rule fail_job_int [OF m b])
next
  fix key v dflt assume "config key = Some v"
  then show "dict_get config key dflt = v" by (simp add: dict_get_def)
next
  fix v w assume "config ''max_retries'' = Some v \<and> config ''backoff_base'' = Some w"
  then show "fail_job now s j result config =
        fail_job now s j result [''max_retries'' \<mapsto> v, ''backoff_base'' \<mapsto> w]"
    by (simp add: fail_job_def dict_get_def)
next
  show "get_config (Json_object config) = (config, Json_object config)"
    by (simp add: get_config_def)
next
  show "worker_loop (Json_object config) ticks s = loop config ticks False s"
    by (simp add: worker_loop_def get_config_def)
qed

text \<open>
  On the empty configuration: the first failure of a job, at second 10, is a retry at
  second \<open>10 + 2 ^ 1\<close>, and the third failure is the last. And a present
  \<open>max_retries = 0\<close> is used as it is.
\<close>

theorem config_defaults_witness:
  "dict_get Map.empty ''max_retries'' (CInt 3) = CInt 3 \<and>
   dict_get Map.empty ''backoff_base'' (CInt 2) = CInt 2 \<and>
   fail_job (quarter_past 10) [job_a_claimed] job_a_claimed exit_1 Map.empty =
     Inr [job_a_claimed\<lparr>state := Pending, attempts := 1, run_at := Py_time 12 250000,
            output_log := Some ''out'', error_log := Some ''err'', updated_at := 10\<rparr>] \<and>
   fail_job (quarter_past 10) [job_a_claimed\<lparr>attempts := 2\<rparr>] (job_a_claimed\<lparr>attempts := 2\<rparr>)
       exit_1 Map.empty =
     Inr [job_a_claimed\<lparr>state := Dead, attempts := 3,
            output_log := Some ''out'', error_log := Some ''err'', updated_at := 10\<rparr>] \<and>
   dict_get [''max_retries'' \<mapsto> CInt 0] ''max_retries'' (CInt 3) = CInt 0"
proof -
  have none: "Map.empty ''max_retries'' = (None :: cval option)"
    "Map.empty ''backoff_base'' = (None :: cval option)"
    by simp_all
  note a = config_defaults [of Map.empty "quarter_past 10" "[job_a_claimed]" job_a_claimed exit_1]
  note c = config_defaults [of Map.empty "quarter_past 10" "[job_a_claimed\<lparr>attempts := 2\<rparr>]"
      "job_a_claimed\<lparr>attempts := 2\<rparr>" exit_1]
  note z = config_defaults [of "[''max_retries'' \<mapsto> CInt 0]"]
  from a none have m: "dict_get Map.empty ''max_retries'' (CInt 3) = CInt 3" by blast
  from a none have b: "dict_get Map.empty ''backoff_base'' (CInt 2) = CInt 2" by blast
  from a none b have "fail_job (quarter_past 10) [job_a_claimed] job_a_claimed exit_1 Map.empty =
      (if 3 \<le> int (attempts job_a_claimed + 1)
       then Inr (fst (sql_update (\<lambda>r. job_id r = job_id job_a_claimed)
              (\<lambda>r. r\<lparr>state := Dead, attempts := attempts job_a_claimed + 1,
                     output_log := Some (stdout exit_1), error_log := Some (stderr exit_1)\<rparr>)
              (whole_seconds (quarter_past 10)) [job_a_claimed]))
       else if \<bar>2 ^ (attempts job_a_claimed + 1) div 86400\<bar> > (999999999 :: int)
       then Inl (OverflowError ''days must have magnitude <= 999999999'')
       else if whole_seconds (quarter_past 10) + 2 ^ (attempts job_a_claimed + 1) < 0 \<or>
               DATETIME_MAX < whole_seconds (quarter_past 10) + 2 ^ (attempts job_a_claimed + 1)
       then Inl (OverflowError ''date value out of range'')
       else Inr (fst (sql_update (\<lambda>r. job_id r = job_id job_a_claimed)
              (\<lambda>r. r\<lparr>state := Pending, attempts := attempts job_a_claimed + 1,
                     run_at := Py_time (whole_seconds (quarter_past 10) +
                                 2 ^ (attempts job_a_claimed + 1))
                                 (microsecond (quarter_past 10)),
                     output_log := Some (stdout exit_1), error_log := Some (stderr exit_1)\<rparr>)
              (whole_seconds (quarter_past 10)) [job_a_claimed])))"
    by blast
  then have 1: "fail_job (quarter_past 10) [job_a_claimed] job_a_claimed exit_1 Map.empty =
     Inr [job_a_claimed\<lparr>state := Pending, attempts := 1, run_at := Py_time 12 250000,
            output_log := Some ''out'', error_log := Some ''err'', updated_at := 10\<rparr>]"
    by (simp add: sql_update_def quarter_past_def DATETIME_MAX_def exit_1_def job_a_claimed_def
        job_a_def)
  from c none b have "fail_job (quarter_past 10) [job_a_claimed\<lparr>attempts := 2\<rparr>]
       (job_a_claimed\<lparr>attempts := 2\<rparr>) exit_1 Map.empty =
      (if 3 \<le> int (attempts (job_a_claimed\<lparr>attempts := 2\<rparr>) + 1)
       then Inr (fst (sql_update (\<lambda>r. job_id r = job_id (job_a_claimed\<lparr>attempts := 2\<rparr>))
              (\<lambda>r. r\<lparr>state := Dead, attempts := attempts (job_a_claimed\<lparr>attempts := 2\<rparr>) + 1,
                     output_log := Some (stdout exit_1), error_log := Some (stderr exit_1)\<rparr>)
              (whole_seconds (quarter_past 10)) [job_a_claimed\<lparr>attempts := 2\<rparr>]))
       else if \<bar>2 ^ (attempts (job_a_claimed\<lparr>attempts := 2\<rparr>) + 1) div 86400\<bar> > (999999999 :: int)
       then Inl (OverflowError ''days must have magnitude <= 999999999'')
       else if whole_seconds (quarter_past 10) + 2 ^ (attempts (job_a_claimed\<lparr>attempts := 2\<rparr>) + 1) < 0 \<or>
               DATETIME_MAX < whole_seconds (quarter_past 10) +
                 2 ^ (attempts (job_a_claimed\<lparr>attempts := 2\<rparr>) + 1)
       then Inl (OverflowError ''date value out of range'')
       else Inr (fst (sql_update (\<lambda>r. job_id r = job_id (job_a_claimed\<lparr>attempts := 2\<rparr>))
              (\<lambda>r. r\<lparr>state := Pending, attempts := attempts (job_a_claimed\<lparr>attempts := 2\<rparr>) + 1,
                     run_at := Py_time (whole_seconds (quarter_past 10) +
                                 2 ^ (attempts (job_a_claimed\<lparr>attempts := 2\<rparr>) + 1))
                                 (microsecond (quarter_past 10)),
                     output_log := Some (stdout exit_1), error_log := Some (stderr exit_1)\<rparr>)
              (whole_seconds (quarter_past 10)) [job_a_claimed\<lparr>attempts := 2\<rparr>])))"
    by blast
  then have 2: "fail_job (quarter_past 10) [job_a_claimed\<lparr>attempts := 2\<rparr>]
       (job_a_claimed\<lparr>attempts := 2\<rparr>) exit_1 Map.empty =
     Inr [job_a_claimed\<lparr>state := Dead, attempts := 3,
            output_log := Some ''out'', error_log := Some ''err'', updated_at := 10\<rparr>]"
    by (simp add: sql_update_def quarter_past_def exit_1_def job_a_claimed_def job_a_def)
  have "[''max_retries'' \<mapsto> CInt 0] ''max_retries'' = Some (CInt 0)" by simp
  with z have 3: "dict_get [''max_retries'' \<mapsto> CInt 0] ''max_retries'' (CInt 3) = CInt 0"
    by blast
  from m b 1 2 3 show ?thesis by blast
qed

section \<open>Attempts never exceed the limit\<close>

lemma lock_and_get_Some:
  assumes "primary_key s" "lock_and_get now jid s = (s', Some j)"
  shows "\<exists>r\<in>set s. job_id r = jid \<and> state r = Pending \<and>
           j = r\<lparr>state := Processing, updated_at := now\<rparr> \<and>
           s' = map (\<lambda>x. if x = r then j else x) s"
proof -
  have "\<not> (\<forall>r\<in>set s. job_id r = jid \<longrightarrow> state r \<noteq> Pending)"
    using lock_and_get_lost [of s jid now] assms(2) by auto
  then obtain r where r: "r \<in> set s" "job_id r = jid" "state r = Pending" by blast
  from lock_and_get_pending [OF assms(1) r(1,3), of now] r(2) assms(2)
  have "j = r\<lparr>state := Processing, updated_at := now\<rparr>"
    "s' = map (\<lambda>x. if x = r then r\<lparr>state := Processing, updated_at := now\<rparr> else x) s"
    by simp_all
  with r show ?thesis by blast
qed

lemma inv_replace:
  assumes inv: "engine_inv m (s, held)" and r: "r \<in> set s" and id: "job_id r' = job_id r"
    and bound: "row_bound m r'"
    and keep: "\<forall>j\<in>set held'. (job_id j = job_id r \<and> state r' = Processing \<and> attempts r' = attempts j)
                 \<or> (j \<in> set held \<and> job_id j \<noteq> job_id r)"
    and dist: "distinct (map job_id held')"
  shows "engine_inv m (map (\<lambda>x. if x = r then r' else x) s, held')"
proof -
  let ?s' = "map (\<lambda>x. if x = r then r' else x) s"
  from inv have pk: "primary_key s" and rows: "\<forall>x\<in>set s. row_bound m x"
    and hs: "\<forall>j\<in>set held. held_row s j"
    by (simp_all add: engine_inv_def)
  have pk': "primary_key ?s'" using pk id by (rule primary_key_replace)
  have rows': "\<forall>x\<in>set ?s'. row_bound m x" using rows bound by auto
  have in': "r' \<in> set ?s'" using r by (auto simp: image_iff)
  have "held_row ?s' j" if j: "j \<in> set held'" for j
  proof -
    from keep j consider
        (new) "job_id j = job_id r" "state r' = Processing" "attempts r' = attempts j"
      | (old) "j \<in> set held" "job_id j \<noteq> job_id r"
      by blast
    then show ?thesis
    proof cases
      case new
      with in' id show ?thesis unfolding held_row_def by (intro bexI [of _ r']) simp_all
    next
      case old
      with hs obtain x where x: "x \<in> set s" "job_id x = job_id j" "state x = Processing"
        "attempts x = attempts j"
        by (auto simp: held_row_def)
      with old have "x \<noteq> r" by auto
      with x(1) have "x \<in> set ?s'" by (auto simp: image_iff)
      with x show ?thesis unfolding held_row_def by (intro bexI [of _ x]) simp_all
    qed
  qed
  with pk' rows' dist show ?thesis by (simp add: engine_inv_def)
qed

lemma held_ids_distinct:
  "distinct (map job_id held) \<Longrightarrow> j \<in> set held \<Longrightarrow> j' \<in> set held \<Longrightarrow> job_id j' = job_id j \<Longrightarrow> j' = j"
  by (auto simp: distinct_map dest: inj_onD)

lemma handle_job_result_row:
  assumes "primary_key s" and "r \<in> set s" and "job_id r = job_id j"
    and "dict_get config ''max_retries'' (CInt 3) = CInt m"
    and "handle_job_result now s j result config = Inr s'"
  shows "\<exists>r'. s' = map (\<lambda>x. if x = r then r' else x) s \<and> job_id r' = job_id r \<and>
      ((state r' = Completed \<and> attempts r' = attempts r) \<or>
       (state r' = Dead \<and> attempts r' = attempts j + 1 \<and> m \<le> int (attempts j + 1)) \<or>
       (state r' = Pending \<and> attempts r' = attempts j + 1 \<and> int (attempts j + 1) < m))"
proof -
  have upd: "fst (sql_update (\<lambda>x. job_id x = job_id j) assign (whole_seconds now) s) =
     map (\<lambda>x. if x = r then (assign r)\<lparr>updated_at := whole_seconds now\<rparr> else x) s" for assign
    using sql_update_id [OF assms(1,2)] assms(3) by simp
  show ?thesis
  proof (cases "returncode result = 0")
    case True
    with assms(5) upd show ?thesis by (auto simp: handle_job_result_def)
  next
    case False
    with assms(5) have f: "fail_job now s j result config = Inr s'"
      by (simp add: handle_job_result_def)
    show ?thesis
    proof (cases "m \<le> int (attempts j + 1)")
      case True
      with f assms(4) upd show ?thesis
        by (auto simp: fail_job_def Let_def py_ge_def)
    next
      case False
      with f assms(4) obtain b where b: "dict_get config ''backoff_base'' (CInt 2) = CInt b"
        by (cases "dict_get config ''backoff_base'' (CInt 2)")
           (auto simp: fail_job_def Let_def py_ge_def py_pow_def)
      from f False upd show ?thesis
        unfolding fail_job_int [OF assms(4) b]
        by (auto split: if_splits)
    qed
  qed
qed

lemma reachable_inv:
  assumes m: "dict_get config ''max_retries'' (CInt 3) = CInt m" and pos: "1 \<le> m"
  shows "reachable config c \<Longrightarrow> engine_inv m c"
proof (induction rule: reachable.induct)
  case start
  show ?case by (simp add: engine_inv_def primary_key_def)
next
  case (enqueued s held now i c s' rep)
  show ?case
  proof (cases "rep = Success")
    case False
    with enqueued.hyps(2) have "s' = s"
      by (auto simp: enqueue_def split: option.splits if_splits)
    with enqueued.IH show ?thesis by simp
  next
    case True
    with enqueued.hyps(2) obtain jid cmd where ic: "i = Some jid" "c = Some cmd"
      by (auto simp: enqueue_def split: option.splits)
    let ?new = "\<lparr>job_id = jid, command = cmd, state = Pending, attempts = 0,
                       created_at = now, updated_at = now, run_at = Sql_time now,
                       output_log = None, error_log = None\<rparr>"
    from enqueued.hyps(2) True ic have s': "s' = s @ [?new]" and fresh: "jid \<notin> set (map job_id s)"
      using enqueue_Success by blast+
    from enqueued.IH have pk: "primary_key s" and d: "distinct (map job_id held)"
      and rows: "\<forall>x\<in>set s. row_bound m x" and hs: "\<forall>j\<in>set held. held_row s j"
      by (simp_all add: engine_inv_def)
    have "primary_key s'" using pk fresh s' by (simp add: primary_key_def)
    moreover have "\<forall>x\<in>set s'. row_bound m x" using rows pos s' by (auto simp: row_bound_def)
    moreover have "\<forall>j\<in>set held. held_row s' j" using hs s' by (auto simp: held_row_def)
    ultimately show ?thesis using d by (simp add: engine_inv_def)
  qed
next
  case (claimed s held now jid s' j)
  from claimed.IH have pk: "primary_key s" and d: "distinct (map job_id held)"
    and rows: "\<forall>x\<in>set s. row_bound m x" and hs: "\<forall>j\<in>set held. held_row s j"
    by (simp_all add: engine_inv_def)
  from lock_and_get_Some [OF pk claimed.hyps(2)] obtain r where
    r: "r \<in> set s" "job_id r = jid" "state r = Pending"
       "j = r\<lparr>state := Processing, updated_at := now\<rparr>"
       "s' = map (\<lambda>x. if x = r then j else x) s"
    by blast
  have notheld: "job_id j' \<noteq> job_id r" if "j' \<in> set held" for j'
  proof
    assume eq: "job_id j' = job_id r"
    from hs that obtain x where "x \<in> set s" "job_id x = job_id j'" "state x = Processing"
      by (auto simp: held_row_def)
    with pk r(1) eq have "x = r" by (auto dest: pk_unique)
    with \<open>state x = Processing\<close> r(3) show False by simp
  qed
  have "engine_inv m (map (\<lambda>x. if x = r then j else x) s, j # held)"
  proof (rule inv_replace [OF claimed.IH r(1)])
    show "job_id j = job_id r" using r(4) by simp
    show "row_bound m j" using rows r(1,3,4) by (auto simp: row_bound_def)
    show "\<forall>j'\<in>set (j # held). (job_id j' = job_id r \<and> state j = Processing \<and> attempts j = attempts j')
                 \<or> (j' \<in> set held \<and> job_id j' \<noteq> job_id r)"
      using notheld r(4) by auto
    have "job_id j \<notin> set (map job_id held)"
    proof
      assume "job_id j \<in> set (map job_id held)"
      then obtain j' where "j' \<in> set held" "job_id j' = job_id j" by auto
      with notheld [of j'] r(4) show False by simp
    qed
    with d show "distinct (map job_id (j # held))" by simp
  qed
  with r(5) show ?case by simp
next
  case (resolved s held j now result s')
  from resolved.IH have pk: "primary_key s" and d: "distinct (map job_id held)"
    and rows: "\<forall>x\<in>set s. row_bound m x" and hs: "\<forall>j\<in>set held. held_row s j"
    by (simp_all add: engine_inv_def)
  from hs resolved.hyps(2) obtain r where
    r: "r \<in> set s" "job_id r = job_id j" "state r = Processing" "attempts r = attempts j"
    by (auto simp: held_row_def)
  from rows r have lt: "int (attempts j) < m" by (auto simp: row_bound_def)
  from handle_job_result_row [OF pk r(1,2) m resolved.hyps(3)] obtain r' where
    r': "s' = map (\<lambda>x. if x = r then r' else x) s" "job_id r' = job_id r"
      "(state r' = Completed \<and> attempts r' = attempts r) \<or>
       (state r' = Dead \<and> attempts r' = attempts j + 1 \<and> m \<le> int (attempts j + 1)) \<or>
       (state r' = Pending \<and> attempts r' = attempts j + 1 \<and> int (attempts j + 1) < m)"
    by blast
  have "engine_inv m (map (\<lambda>x. if x = r then r' else x) s, removeAll j held)"
  proof (rule inv_replace [OF resolved.IH r(1) r'(2)])
    show "row_bound m r'" using r'(3) lt r(4) by (auto simp: row_bound_def)
    show "\<forall>j'\<in>set (removeAll j held). (job_id j' = job_id r \<and> state r' = Processing \<and> attempts r' = attempts j')
                 \<or> (j' \<in> set held \<and> job_id j' \<noteq> job_id r)"
      using d resolved.hyps(2) r(2) by (auto dest: held_ids_distinct)
    show "distinct (map job_id (removeAll j held))"
      using d by (simp add: removeAll_filter_not_eq distinct_map_filter)
  qed
  with r'(1) show ?case by simp
next
  case (retried s held now jid s' rep)
  from retried.IH have pk: "primary_key s" and d: "distinct (map job_id held)"
    and rows: "\<forall>x\<in>set s. row_bound m x" and hs: "\<forall>j\<in>set held. held_row s j"
    by (simp_all add: engine_inv_def)
  show ?case
  proof (cases "\<exists>r\<in>set s. job_id r = jid \<and> state r = Dead")
    case False
    then have "sql_update (\<lambda>x. job_id x = jid \<and> state x = Dead)
             (\<lambda>r. r\<lparr>state := Pending, attempts := 0, run_at := Sql_time now\<rparr>) now s = (s, 0)"
      by (intro sql_update_none) auto
    with retried.hyps(2) have "s' = s" by (simp add: dlq_retry_def)
    with retried.IH show ?thesis by simp
  next
    case True
    then obtain r where r: "r \<in> set s" "job_id r = jid" "state r = Dead" by blast
    let ?r' = "r\<lparr>state := Pending, attempts := 0, run_at := Sql_time now, updated_at := now\<rparr>"
    have st: "fst (sql_update (\<lambda>x. job_id x = jid \<and> state x = Dead)
             (\<lambda>r. r\<lparr>state := Pending, attempts := 0, run_at := Sql_time now\<rparr>) now s) =
        map (\<lambda>x. if x = r then ?r' else x) s"
      using sql_update_one [OF pk r(1), of "\<lambda>x. state x = Dead"] r(2,3) by simp
    have rc: "snd (sql_update (\<lambda>x. job_id x = jid \<and> state x = Dead)
             (\<lambda>r. r\<lparr>state := Pending, attempts := 0, run_at := Sql_time now\<rparr>) now s) \<noteq> 0"
      using r by (auto simp: sql_update_rowcount)
    from st rc retried.hyps(2) have s': "s' = map (\<lambda>x. if x = r then ?r' else x) s"
      by (cases "sql_update (\<lambda>x. job_id x = jid \<and> state x = Dead)
             (\<lambda>r. r\<lparr>state := Pending, attempts := 0, run_at := Sql_time now\<rparr>) now s")
         (auto simp: dlq_retry_def)
    have notheld: "job_id j' \<noteq> job_id r" if "j' \<in> set held" for j'
    proof
      assume eq: "job_id j' = job_id r"
      from hs that obtain x where "x \<in> set s" "job_id x = job_id j'" "state x = Processing"
        by (auto simp: held_row_def)
      with pk r(1) eq have "x = r" by (auto dest: pk_unique)
      with \<open>state x = Processing\<close> r(3) show False by simp
    qed
    have "engine_inv m (map (\<lambda>x. if x = r then ?r' else x) s, held)"
    proof (rule inv_replace [OF retried.IH r(1)])
      show "job_id ?r' = job_id r" by simp
      show "row_bound m ?r'" using pos by (simp add: row_bound_def)
      show "\<forall>j'\<in>set held. (job_id j' = job_id r \<and> state ?r' = Processing \<and> attempts ?r' = attempts j')
                 \<or> (j' \<in> set held \<and> job_id j' \<noteq> job_id r)"
        using notheld by auto
      show "distinct (map job_id held)" by (rule d)
    qed
    with s' show ?thesis by simp
  qed
qed

lemma reachable_fetch_and_lock_job:
  assumes "reachable config (s, held)" and "fetch_and_lock_job now s = (s', Some j)"
  shows "reachable config (s', j # held)"
proof -
  from assms(2) obtain jid where "find_sql now s = Some jid"
    by (cases "find_sql now s") (auto simp: fetch_and_lock_job_def)
  with assms(2) have "lock_and_get now jid s = (s', Some j)"
    by (simp add: fetch_and_lock_job_def)
  with assms(1) show ?thesis by (rule reachable.claimed)
qed

lemma reachable_job_a_dead: "reachable config_1 ([job_a_dead], [])"
proof -
  have e: "enqueue 1 [] (Some ''a'') (Some ''exit 1'') = ([job_a], Success)"
    by (simp add: enqueue_def job_a_def)
  have c: "fetch_and_lock_job 5 [job_a] = ([job_a_claimed], Some job_a_claimed)"
    by (simp add: fetch_and_lock_job_def find_sql_def eligible_def lock_and_get_def lock_sql_def
        sql_update_def get_sql_def job_a_claimed_def job_a_def)
  have h: "handle_job_result (quarter_past 10) [job_a_claimed] job_a_claimed exit_1 config_1 =
      Inr [job_a_dead]"
    by (simp add: handle_job_result_def fail_job_def Let_def dict_get_def config_1_def py_ge_def
        quarter_past_def sql_update_def exit_1_def job_a_dead_def job_a_claimed_def job_a_def)
  have "reachable config_1 ([job_a], [])"
    using reachable.start e by (rule reachable.enqueued)
  then have "reachable config_1 ([job_a_claimed], [job_a_claimed])"
    using c by (rule reachable_fetch_and_lock_job)
  then have "reachable config_1 ([job_a_dead], removeAll job_a_claimed [job_a_claimed])"
    using _ h by (rule reachable.resolved) simp
  then show ?thesis by simp
qed

text \<open>
  C5. Let \<open>max_retries\<close> be an integer \<open>m \<ge> 1\<close> (read from the configuration, or 3 where
  the key is absent). In every state the engine reaches from the empty store by enqueue,
  claim, resolution and dlq retry, every row has at most \<open>m\<close> attempts and every dead row
  has exactly \<open>m\<close>; and whenever a worker's resolution of a job it holds succeeds, every
  row that is dead right after it has exactly \<open>m\<close> attempts.
\<close>

theorem attempts_bounded:
  assumes "dict_get config ''max_retries'' (CInt 3) = CInt m" and "1 \<le> m"
    and "reachable config (s, held)"
  shows "(\<forall>r\<in>set s. int (attempts r) \<le> m \<and> (state r = Dead \<longrightarrow> int (attempts r) = m)) \<and>
    (\<forall>j\<in>set held. \<forall>now result s'. handle_job_result now s j result config = Inr s' \<longrightarrow>
       (\<forall>r'\<in>set s'. state r' = Dead \<longrightarrow> int (attempts r') = m))"
proof -
  from reachable_inv [OF assms] have rows: "\<forall>x\<in>set s. row_bound m x"
    by (simp add: engine_inv_def)
  have 1: "\<forall>r\<in>set s. int (attempts r) \<le> m \<and> (state r = Dead \<longrightarrow> int (attempts r) = m)"
  proof
    fix r assume "r \<in> set s"
    with rows have "row_bound m r" by simp
    then show "int (attempts r) \<le> m \<and> (state r = Dead \<longrightarrow> int (attempts r) = m)"
      by (cases "state r = Dead") (simp_all add: row_bound_def)
  qed
  have 2: "\<forall>j\<in>set held. \<forall>now result s'. handle_job_result now s j result config = Inr s' \<longrightarrow>
       (\<forall>r'\<in>set s'. state r' = Dead \<longrightarrow> int (attempts r') = m)"
  proof (intro ballI allI impI)
    fix j now result s' r'
    assume "j \<in> set held" "handle_job_result now s j result config = Inr s'"
    with assms(3) have "reachable config (s', removeAll j held)" by (rule reachable.resolved)
    from reachable_inv [OF assms(1,2) this] have "\<forall>x\<in>set s'. row_bound m x"
      by (simp add: engine_inv_def)
    moreover assume "r' \<in> set s'" "state r' = Dead"
    ultimately show "int (attempts r') = m" by (auto simp: row_bound_def)
  qed
  from 1 2 show ?thesis by (rule conjI)
qed

theorem attempts_bounded_witness:
  "dict_get config_1 ''max_retries'' (CInt 3) = CInt 1 \<and> reachable config_1 ([job_a_dead], []) \<and>
   state job_a_dead = Dead \<and> int (attempts job_a_dead) = 1"
proof -
  have m: "dict_get config_1 ''max_retries'' (CInt 3) = CInt 1"
    by (simp add: dict_get_def config_1_def)
  have d: "state job_a_dead = Dead" by (simp add: job_a_dead_def)
  from attempts_bounded [OF m _ reachable_job_a_dead] d
  have "int (attempts job_a_dead) = 1" by simp
  with m d reachable_job_a_dead show ?thesis by simp
qed

section \<open>The worker loop\<close>

text \<open>
  With an integer \<open>max_retries\<close>, an integer \<open>backoff_base \<ge> 1\<close> and the time of the
  retry in the range of datetime, resolution does not raise.
\<close>

lemma handle_job_result_int_config:
  assumes "dict_get config ''max_retries'' (CInt 3) = CInt m"
    and "dict_get config ''backoff_base'' (CInt 2) = CInt b"
    and "1 \<le> b" and "0 \<le> whole_seconds now"
    and "whole_seconds now + b ^ (attempts j + 1) \<le> DATETIME_MAX"
  shows "\<exists>s'. handle_job_result now s j result config = Inr s'"
proof -
  have pos: "0 \<le> b ^ (attempts j + 1)" using assms(3) by simp
  with assms(4,5) have "b ^ (attempts j + 1) \<le> DATETIME_MAX" by linarith
  with pos have "\<not> \<bar>b ^ (attempts j + 1) div 86400\<bar> > 999999999"
    by (rule timedelta_in_range)
  moreover have "\<not> (whole_seconds now + b ^ (attempts j + 1) < 0 \<or>
             DATETIME_MAX < whole_seconds now + b ^ (attempts j + 1))"
    using pos assms(4,5) by linarith
  ultimately have "\<exists>s'. fail_job now s j result config = Inr s'"
    by (simp only: fail_job_int [OF assms(1,2)] if_False split: if_splits) simp
  then show ?thesis by (simp add: handle_job_result_def)
qed

text \<open>
  What \<open>fail_job\<close> raises depends on the job and the configuration, not on the result:
  the call that \<open>except Exception\<close> makes with the error text raises what the first call
  raised, and the exception leaves the loop with the job still in state processing.
\<close>

lemma recovery_raises_again:
  assumes "handle_job_result now s j result config = Inl e"
  shows "handle_job_result now s j \<lparr>returncode = 1, stdout = [], stderr = txt\<rparr> config = Inl e"
proof -
  from assms have "fail_job now s j result config = Inl e"
    by (simp add: handle_job_result_def split: if_splits)
  then have "fail_job now s j \<lparr>returncode = 1, stdout = [], stderr = txt\<rparr> config = Inl e"
    by (auto simp: fail_job_def Let_def split: sum.splits bool.splits)
  then show ?thesis by (simp add: handle_job_result_def)
qed

lemma worker_pass_error_strands_job:
  assumes "fetch_and_lock_job (t_claim t) s = (s1, Some j)" and "signals t \<le> 1"
    and "handle_job_result (t_resolve t) s1 j (run_job (exec t) j) config = Inl e"
  shows "worker_pass config t s = (s1, Propagates e)"
proof -
  from assms(2) have "signals t = 0 \<or> signals t = Suc 0" by auto
  then have "\<exists>flag. deliver (signals t) False = Inr flag"
    by (auto simp: signal_handler_def)
  then obtain flag where "deliver (signals t) False = Inr flag" by blast
  with assms(1,3) recovery_raises_again [OF assms(3)] show ?thesis
    by (simp add: worker_pass_def)
qed

text \<open>
  With integer policy values, the time of the retry in the range of datetime and at most
  one signal during the pass, a pass that claims a job resolves it before it ends: the
  job's row is completed, pending or dead, and no other row has changed. A signal that
  arrives while the command runs only sets the flag.
\<close>

lemma worker_pass_resolves:
  assumes pk: "primary_key s"
    and m: "dict_get config ''max_retries'' (CInt 3) = CInt m"
    and b: "dict_get config ''backoff_base'' (CInt 2) = CInt b"
    and f: "fetch_and_lock_job (t_claim t) s = (s1, Some j)" and sg: "signals t \<le> 1"
    and b1: "1 \<le> b" and t0: "0 \<le> whole_seconds (t_resolve t)"
    and le: "whole_seconds (t_resolve t) + b ^ (attempts j + 1) \<le> DATETIME_MAX"
  shows "\<exists>s2 r r'. worker_pass config t s = (s2, Next_pass (signals t = 1)) \<and>
      handle_job_result (t_resolve t) s1 j (run_job (exec t) j) config = Inr s2 \<and>
      r \<in> set s \<and> s2 = map (\<lambda>x. if x = r then r' else x) s \<and>
      job_id r = job_id j \<and> job_id r' = job_id j \<and> state r' \<in> {Completed, Pending, Dead}"
proof -
  from fetch_and_lock_job_Some [OF pk f] obtain r where
    r: "r \<in> set s" "j = r\<lparr>state := Processing, updated_at := t_claim t\<rparr>"
       "s1 = map (\<lambda>x. if x = r then j else x) s"
    by blast
  have pk1: "primary_key s1" unfolding r(3) using pk by (rule primary_key_replace) (simp add: r(2))
  have in1: "j \<in> set s1" using r(1,3) by (auto simp: image_iff)
  from handle_job_result_int_config [OF m b b1 t0 le] obtain s2 where
    h: "handle_job_result (t_resolve t) s1 j (run_job (exec t) j) config = Inr s2" by blast
  from handle_job_result_row [OF pk1 in1 refl m h] obtain r' where
    r': "s2 = map (\<lambda>x. if x = j then r' else x) s1" "job_id r' = job_id j"
        "state r' \<in> {Completed, Pending, Dead}"
    by auto
  have jr: "x \<in> set s \<Longrightarrow> x = j \<Longrightarrow> x = r" for x
    using pk r(1,2) by (auto dest: pk_unique)
  have s2: "s2 = map (\<lambda>x. if x = r then r' else x) s"
    unfolding r'(1) r(3) using jr by (auto simp: map_idI)
  from sg have "signals t = 0 \<or> signals t = Suc 0" by auto
  then have "deliver (signals t) False = Inr (signals t = 1)"
    by (auto simp: signal_handler_def)
  with f h have "worker_pass config t s = (s2, Next_pass (signals t = 1))"
    by (simp add: worker_pass_def)
  moreover have "job_id r = job_id j" using r(2) by simp
  ultimately show ?thesis using h r(1) s2 r'(2,3) by blast
qed


lemma fetch_and_lock_job_None:
  assumes "primary_key s" and "fetch_and_lock_job now s = (s1, None)"
  shows "s1 = s"
proof (cases "find (eligible now) s")
  case None
  with assms(2) show ?thesis by (simp add: fetch_and_lock_job_def find_sql_def)
next
  case (Some r)
  then have r: "r \<in> set s" "state r = Pending"
    by (auto dest: find_Some_member simp: eligible_def)
  from lock_and_get_pending [OF assms(1) r, of now] Some assms(2) show ?thesis
    by (simp add: fetch_and_lock_job_def find_sql_def)
qed

lemma deliver_twice: "2 \<le> n \<Longrightarrow> deliver n False = Inl (SystemExit 1)"
proof -
  assume "2 \<le> n"
  then obtain k where "n = Suc (Suc k)" by (metis add_2_eq_Suc le_Suc_ex)
  then show ?thesis by (simp add: signal_handler_def)
qed

lemma deliver_at_most_once: "n \<le> 1 \<Longrightarrow> deliver n False = Inr (n = 1)"
proof -
  assume "n \<le> 1"
  then have "n = 0 \<or> n = Suc 0" by auto
  then show ?thesis by (auto simp: signal_handler_def)
qed

text \<open>
  For every configuration: a pass that ends normally leaves no row in state processing
  when it found none, and so does a loop that stops gracefully.
\<close>

lemma handle_job_result_state:
  assumes "primary_key s" and "r \<in> set s" and "job_id r = job_id j"
    and "handle_job_result now s j result config = Inr s'"
  shows "\<exists>r'. s' = map (\<lambda>x. if x = r then r' else x) s \<and> job_id r' = job_id r \<and>
      state r' \<in> {Completed, Pending, Dead}"
proof -
  have upd: "fst (sql_update (\<lambda>x. job_id x = job_id j) assign (whole_seconds now) s) =
     map (\<lambda>x. if x = r then (assign r)\<lparr>updated_at := whole_seconds now\<rparr> else x) s" for assign
    using sql_update_id [OF assms(1,2)] assms(3) by simp
  show ?thesis
  proof (cases "returncode result = 0")
    case True
    with assms(4) upd show ?thesis by (auto simp: handle_job_result_def)
  next
    case False
    with assms(4) have "fail_job now s j result config = Inr s'"
      by (simp add: handle_job_result_def)
    with upd show ?thesis
      by (auto simp: fail_job_def Let_def split: sum.splits bool.splits)
  qed
qed

lemma worker_pass_clean:
  assumes pk: "primary_key s" and np: "no_processing s"
    and w: "worker_pass config t s = (s', Next_pass flag)"
  shows "primary_key s' \<and> no_processing s'"
proof -
  obtain s1 jo where f: "fetch_and_lock_job (t_claim t) s = (s1, jo)"
    by (cases "fetch_and_lock_job (t_claim t) s")
  have sg: "signals t \<le> 1"
  proof (rule ccontr)
    assume "\<not> signals t \<le> 1"
    then have "deliver (signals t) False = Inl (SystemExit 1)" by (intro deliver_twice) simp
    with f w show False by (cases jo) (simp_all add: worker_pass_def)
  qed
  note dl = deliver_at_most_once [OF sg]
  show ?thesis
  proof (cases jo)
    case None
    from fetch_and_lock_job_None [OF pk f [unfolded None]] have "s1 = s" .
    with f None w dl have "s' = s" by (simp add: worker_pass_def)
    with pk np show ?thesis by simp
  next
    case (Some j)
    from fetch_and_lock_job_Some [OF pk f [unfolded Some]] obtain r where
      r: "r \<in> set s" "j = r\<lparr>state := Processing, updated_at := t_claim t\<rparr>"
         "s1 = map (\<lambda>x. if x = r then j else x) s"
      by blast
    have pk1: "primary_key s1" unfolding r(3) using pk
      by (rule primary_key_replace) (simp add: r(2))
    have in1: "j \<in> set s1" using r(1,3) by (auto simp: image_iff)
    have h: "handle_job_result (t_resolve t) s1 j (run_job (exec t) j) config = Inr s'"
    proof (cases "handle_job_result (t_resolve t) s1 j (run_job (exec t) j) config")
      case (Inl e)
      from worker_pass_error_strands_job [OF f [unfolded Some] sg Inl] w show ?thesis by simp
    next
      case (Inr s2)
      with f Some dl w show ?thesis by (simp add: worker_pass_def)
    qed
    from handle_job_result_state [OF pk1 in1 refl h] obtain r' where
      r': "s' = map (\<lambda>x. if x = j then r' else x) s1" "job_id r' = job_id j"
          "state r' \<in> {Completed, Pending, Dead}"
      by auto
    have pk': "primary_key s'" unfolding r'(1) using pk1
      by (rule primary_key_replace) (simp add: r'(2))
    have "state x \<noteq> Processing" if "x \<in> set s'" for x
    proof -
      from that r'(1) have "x = r' \<or> (x \<in> set s1 \<and> x \<noteq> j)" by (auto split: if_splits)
      then have "x = r' \<or> x \<in> set s" using r(3) by (auto split: if_splits)
      with r'(3) np show ?thesis by (auto simp: no_processing_def)
    qed
    with pk' show ?thesis by (simp add: no_processing_def)
  qed
qed

lemma loop_clean_shutdown:
  "primary_key s \<Longrightarrow> no_processing s \<Longrightarrow> loop config ticks flag s = Stopped s'
    \<Longrightarrow> no_processing s'"
proof (induction config ticks flag s rule: loop.induct)
  case (1 config ticks s)
  then show ?case by simp
next
  case (2 config s)
  then show ?case by simp
next
  case (3 config t ts s)
  obtain s1 e where w: "worker_pass config t s = (s1, e)" by (cases "worker_pass config t s")
  show ?case
  proof (cases e)
    case (Next_pass flag)
    from worker_pass_clean [OF "3.prems"(1,2) w [unfolded Next_pass]]
    have "primary_key s1" "no_processing s1" by simp_all
    moreover from "3.prems"(3) w Next_pass have "loop config ts flag s1 = Stopped s'" by simp
    ultimately show ?thesis using w Next_pass by (intro "3.IH") simp_all
  next
    case (Exits x)
    with "3.prems"(3) w show ?thesis by simp
  next
    case (Propagates x)
    with "3.prems"(3) w show ?thesis by simp
  qed
qed

text \<open>
  The same happens when the time of the retry is after the year 9999: with
  \<open>backoff_base = 10 ^ 12\<close> the first failure of a job raises OverflowError in \<open>fail_job\<close>
  and again in the handler, and the job's row stays in state processing.
\<close>

lemma worker_loop_overflow_strands_job:
  "worker_loop (Json_object config_big) [tick_2026] [job_a] =
     Uncaught (OverflowError ''date value out of range'')
       [job_a\<lparr>state := Processing, updated_at := 63929347200\<rparr>]"
  by (simp add: worker_loop_def get_config_def worker_pass_def fetch_and_lock_job_def find_sql_def
      eligible_def lock_and_get_def lock_sql_def sql_update_def get_sql_def run_job_def
      handle_job_result_def fail_job_def Let_def dict_get_def py_ge_def py_pow_def timedelta_def
      datetime_add_def DATETIME_MAX_def str_of_error_def config_big_def tick_2026_def in_2026_def
      exit_1_def job_a_def)

text \<open>
  C6. The statement that every pass of the loop that claims a job resolves it, an
  unexpected error after the claim being turned into a failure of the job with the error
  text as its error log, does not hold of \<open>worker_loop\<close> at the configuration that
  \<open>config set max_retries three\<close> writes. With one pending job whose command ends with
  exit status 1: \<open>fail_job\<close> raises TypeError at its comparison, the handler's second
  call raises it again, the exception leaves the loop, and the job's row stays in state
  processing.
\<close>

theorem worker_loop_type_error_strands_job:
  "worker_loop (Json_object config_three) [tick_1] [job_a] =
     Uncaught (TypeError ''>= not supported between instances of int and str'') [job_a_claimed] \<and>
   state job_a_claimed = Processing"
  by (simp add: worker_loop_def get_config_def worker_pass_def fetch_and_lock_job_def find_sql_def
      eligible_def lock_and_get_def lock_sql_def sql_update_def get_sql_def run_job_def
      handle_job_result_def fail_job_def Let_def dict_get_def py_ge_def str_of_error_def
      config_three_def tick_1_def quarter_past_def exit_1_def job_a_claimed_def job_a_def)

end
